theory Spec2Isabelle
  imports Main "HOL-Library.Monad_Syntax"
begin

section \<open>Declaration injection (lib/Sema/SemaInject.cpp)\<close>

text \<open>
  A shallow embedding of the injection layer of the semantic analyser. Pointers to
  declarations are identifiers into a store held by the analyser state; a null pointer is
  \<open>None\<close>. A function that can hit an assertion, an \<open>llvm_unreachable\<close>, a failing
  \<open>cast<>\<close> or a null dereference returns an \<open>option\<close>, and \<open>None\<close> is that abort.
  Functions of the host compiler that are only declared outside this file are the fields
  of the record \<open>host\<close>, or small definitions marked as modelled from the spec. Source
  locations are kept where a diagnostic or a new declaration carries one.
\<close>

subsection \<open>Data model\<close>

type_synonym decl_id = nat
type_synonym source_location = nat

text \<open>The declaration classes the file distinguishes with \<open>isa<>\<close> and \<open>dyn_cast<>\<close>.\<close>

datatype decl_kind =
    TranslationUnitDecl | NamespaceDecl | CXXRecordDecl | ClassTemplateSpecializationDecl
  | CXXFragmentDecl | FunctionDecl | CXXMethodDecl | CXXConstructorDecl | CXXDestructorDecl
  | BlockDecl | OtherContextDecl | VarDecl | ParmVarDecl | FieldDecl | OtherDecl

datatype storage_class = SC_None | SC_Extern | SC_Static | SC_PrivateExtern | SC_Auto | SC_Register

datatype access_specifier = AS_public | AS_protected | AS_private | AS_none

datatype init_style = CInit | CallInit | ListInit

datatype cast_kind = CK_LValueToRValue | CK_NoOp | CK_Other

datatype qualtype = DependentTy | VoidTy | RecordTy decl_id | OtherTy nat

datatype template_argument = TA_Type qualtype | TA_Other

text \<open>\<open>APValue\<close>: an integer, or a struct value with base subobjects and fields.\<close>

datatype apvalue = APV_Int int | APV_Struct "apvalue list" "apvalue list" | APV_Other

datatype expr =
    DeclRefExpr decl_id qualtype
  | ImplicitCastExpr qualtype cast_kind expr
  | OpaqueValueExpr source_location qualtype
  | OtherExpr nat qualtype

text \<open>
  One record for every declaration class; a field that a class does not have keeps its
  default. \<open>ident_info = None\<close> is the null \<open>IdentifierInfo\<close> of an unnamed declaration.
  \<open>local_var_or_parm\<close>, \<open>local_storage\<close>, \<open>defined\<close>, \<open>field_index\<close> hold what the
  queries \<open>isLocalVarDeclOrParm()\<close>, \<open>hasLocalStorage()\<close>, \<open>isDefined()\<close> and
  \<open>getFieldIndex()\<close> of the host compiler answer for the declaration.
\<close>

record decl =
  kind :: decl_kind
  decl_context :: decl_id
  location :: source_location
  ident_info :: "string option"
  decl_type :: qualtype
  storage :: storage_class
  access :: access_specifier
  invalid_decl :: bool
  implicit :: bool
  referenced :: bool
  used :: bool
  is_constexpr :: bool
  var_init_style :: init_style
  init :: "expr option"
  in_class_initializer :: "expr option"
  local_var_or_parm :: bool
  local_storage :: bool
  injected_class_name :: bool
  inline_namespace :: bool
  fragment_class :: bool
  content :: "decl_id option"
  template_args :: "template_argument list"
  bases :: "qualtype list"
  field_index :: nat
  virtual_as_written :: bool
  pure :: bool
  defaulted :: bool
  deleted :: bool
  defined :: bool
  this_declaration_is_definition :: bool
  has_definition :: bool

datatype diag_id =
    err_invalid_injection | err_injecting_local_into_invalid_scope
  | err_modifies_mem_spec_of_non_member | err_declration_cannot_be_made_constexpr
  | err_virtual_non_function | err_cannot_make_pure_virtual | err_reflection_not_a_decl

text \<open>\<open>Diag(Loc, id) << a << b\<close>\<close>

datatype diagnostic = Diag source_location diag_id "int list"

datatype printed = PrintedDecl decl_id | PrintedType qualtype

record typed_value =
  tv_type :: qualtype
  tv_value :: apvalue

text \<open>\<open>InjectionContext\<close>; its \<open>Prev\<close> link is the rest of the stack it sits on.\<close>

record injection_context =
  cxt_injectee :: decl_id
  DeclSubsts :: "decl_id \<rightharpoonup> decl_id"
  PlaceholderSubsts :: "decl_id \<rightharpoonup> typed_value"

text \<open>
  The part of \<open>Sema\<close> and of the AST the file reads and writes: the declarations, the
  ordered member list of every declaration context (\<open>DeclContext::decls()\<close>), the
  allocator, \<open>CurContext\<close>, \<open>CurrentInjectionContext\<close> (head of the stack), the
  diagnostics emitted and what was printed to \<open>llvm::errs()\<close>.
\<close>

record sema =
  decls :: "decl_id \<Rightarrow> decl"
  members :: "decl_id \<Rightarrow> decl_id list"
  next_id :: decl_id
  CurContext :: decl_id
  CurrentInjectionContext :: "injection_context list"
  diags :: "diagnostic list"
  errs :: "printed list"

text \<open>A lexical \<open>Scope\<close>; a \<open>Scope *\<close> is the scope followed by its parents, \<open>[]\<close> is null.\<close>

record scope =
  scope_decls :: "decl_id list"
  entity :: "decl_id option"

type_synonym scope_ptr = "scope list"

subsection \<open>Class tests and context kinds\<close>

text \<open>
  Modelled from the spec: the closed declaration-kind hierarchy behind the checks
  \<open>isa<VarDecl>\<close>, \<open>isa<FieldDecl>\<close>, ... of the file, and the kinds of declaration
  context it asks for (record, file scope, function or method, namespace, translation
  unit). The AST classes are declared outside this file. A subclass passes the test of
  its base class.
\<close>

definition isa_VarDecl :: "decl_kind \<Rightarrow> bool" where
  "isa_VarDecl k = (k = VarDecl \<or> k = ParmVarDecl)"

definition isa_FieldDecl :: "decl_kind \<Rightarrow> bool" where
  "isa_FieldDecl k = (k = FieldDecl)"

definition isa_CXXMethodDecl :: "decl_kind \<Rightarrow> bool" where
  "isa_CXXMethodDecl k = (k = CXXMethodDecl \<or> k = CXXConstructorDecl \<or> k = CXXDestructorDecl)"

definition isa_CXXDestructorDecl :: "decl_kind \<Rightarrow> bool" where
  "isa_CXXDestructorDecl k = (k = CXXDestructorDecl)"

definition isa_FunctionDecl :: "decl_kind \<Rightarrow> bool" where
  "isa_FunctionDecl k = (k = FunctionDecl \<or> isa_CXXMethodDecl k)"

definition isa_CXXRecordDecl :: "decl_kind \<Rightarrow> bool" where
  "isa_CXXRecordDecl k = (k = CXXRecordDecl \<or> k = ClassTemplateSpecializationDecl)"

definition isa_ClassTemplateSpecializationDecl :: "decl_kind \<Rightarrow> bool" where
  "isa_ClassTemplateSpecializationDecl k = (k = ClassTemplateSpecializationDecl)"

definition isa_NamespaceDecl :: "decl_kind \<Rightarrow> bool" where
  "isa_NamespaceDecl k = (k = NamespaceDecl)"

definition isa_CXXFragmentDecl :: "decl_kind \<Rightarrow> bool" where
  "isa_CXXFragmentDecl k = (k = CXXFragmentDecl)"

text \<open>
  Modelled from the spec: which declaration classes are declaration contexts (records,
  namespaces, the translation unit, functions and blocks, fragments).
\<close>

definition isDeclContext :: "decl_kind \<Rightarrow> bool" where
  "isDeclContext k = (k \<noteq> VarDecl \<and> k \<noteq> ParmVarDecl \<and> k \<noteq> FieldDecl \<and> k \<noteq> OtherDecl)"

definition isFunctionOrMethod :: "decl_kind \<Rightarrow> bool" where
  "isFunctionOrMethod k = (isa_FunctionDecl k \<or> k = BlockDecl)"

definition isRecord :: "decl_kind \<Rightarrow> bool" where
  "isRecord k = isa_CXXRecordDecl k"

definition isNamespace :: "decl_kind \<Rightarrow> bool" where
  "isNamespace k = (k = NamespaceDecl)"

definition isTranslationUnit :: "decl_kind \<Rightarrow> bool" where
  "isTranslationUnit k = (k = TranslationUnitDecl)"

definition isFileContext :: "decl_kind \<Rightarrow> bool" where
  "isFileContext k = (isTranslationUnit k \<or> isNamespace k)"

text \<open>
  Modelled from the spec: \<open>Decl::castToDeclContext\<close> (the same node seen as a context,
  unreachable for a declaration that is none), \<open>VarDecl::hasInit\<close>, and \<open>assert\<close>.
\<close>

definition castToDeclContext :: "sema \<Rightarrow> decl_id \<Rightarrow> decl_id option" where
  "castToDeclContext s D = (if isDeclContext (kind (decls s D)) then Some D else None)"

definition hasInit :: "decl \<Rightarrow> bool" where
  "hasInit d = (init d \<noteq> None)"

definition assert :: "bool \<Rightarrow> unit option" where
  "assert b = (if b then Some () else None)"

subsection \<open>Allocation and simple mutators\<close>

text \<open>
  Modelled from the spec: creating a declaration (\<open>new (Context) ...\<close>, the \<open>Create\<close>
  functions), adding it as a member of a context, marking a declaration invalid and
  emitting a diagnostic keyed by location, kind and arguments. All are defined outside
  this file.
\<close>

text \<open>A freshly created declaration: every flag cleared, no initializer, no members.\<close>

definition new_decl :: "decl_kind \<Rightarrow> decl_id \<Rightarrow> source_location \<Rightarrow> string option
    \<Rightarrow> qualtype \<Rightarrow> storage_class \<Rightarrow> decl" where
  "new_decl k dc loc idn ty sc =
     \<lparr> kind = k, decl_context = dc, location = loc, ident_info = idn, decl_type = ty,
       storage = sc, access = AS_none, invalid_decl = False, implicit = False,
       referenced = False, used = False, is_constexpr = False, var_init_style = CInit,
       init = None, in_class_initializer = None, local_var_or_parm = False,
       local_storage = False, injected_class_name = False, inline_namespace = False,
       fragment_class = False, content = None, template_args = [], bases = [],
       field_index = 0, virtual_as_written = False, pure = False, defaulted = False,
       deleted = False, defined = False, this_declaration_is_definition = False,
       has_definition = False \<rparr>"

definition allocate :: "sema \<Rightarrow> decl \<Rightarrow> decl_id \<times> sema" where
  "allocate s d =
     (next_id s,
      s\<lparr> decls := (decls s)(next_id s := d),
         members := (members s)(next_id s := []),
         next_id := Suc (next_id s) \<rparr>)"

definition update_decl :: "sema \<Rightarrow> decl_id \<Rightarrow> (decl \<Rightarrow> decl) \<Rightarrow> sema" where
  "update_decl s D f = s\<lparr> decls := (decls s)(D := f (decls s D)) \<rparr>"

text \<open>\<open>DeclContext::addDecl\<close> appends to the member list of the context.\<close>

definition addDecl :: "sema \<Rightarrow> decl_id \<Rightarrow> decl_id \<Rightarrow> sema" where
  "addDecl s DC D = s\<lparr> members := (members s)(DC := members s DC @ [D]) \<rparr>"

definition setInvalidDecl :: "sema \<Rightarrow> decl_id \<Rightarrow> sema" where
  "setInvalidDecl s D = update_decl s D (\<lambda>d. d\<lparr> invalid_decl := True \<rparr>)"

definition emit :: "sema \<Rightarrow> diagnostic \<Rightarrow> sema" where
  "emit s d = s\<lparr> diags := diags s @ [d] \<rparr>"

subsection \<open>Host compiler interface\<close>

datatype reflected_construct = ReflNone | ReflDecl decl_id | ReflType qualtype

datatype expr_result = ExprError | ExprValid "expr option"

text \<open>
  The functions of \<open>Sema\<close>, \<open>ASTContext\<close> and \<open>DeclContext\<close> that the file calls and
  that are defined elsewhere. They are parameters of the model. Those that can change the
  AST return the new state.
\<close>

record host =
  SubstDecl :: "sema \<Rightarrow> decl_id \<Rightarrow> decl_id \<Rightarrow> decl_id option \<times> sema"
  SubstDeclarationNameInfo :: "sema \<Rightarrow> string option \<Rightarrow> string option"
  SubstType :: "sema \<Rightarrow> qualtype \<Rightarrow> qualtype option"
  SubstInitializer :: "sema \<Rightarrow> expr \<Rightarrow> expr_result"
  AddInitializerToDecl :: "sema \<Rightarrow> decl_id \<Rightarrow> expr \<Rightarrow> sema"
  ActOnUninitializedDecl :: "sema \<Rightarrow> decl_id \<Rightarrow> sema"
  CheckVariableDeclarationType :: "sema \<Rightarrow> decl_id \<Rightarrow> sema"
  CheckPureMethod :: "sema \<Rightarrow> decl_id \<Rightarrow> sema"
  InstantiateFunctionDefinition :: "sema \<Rightarrow> source_location \<Rightarrow> decl_id \<Rightarrow> sema"
  updateDecl :: "sema \<Rightarrow> decl_id \<Rightarrow> decl_id \<Rightarrow> sema"
  lookup :: "sema \<Rightarrow> decl_id \<Rightarrow> string \<Rightarrow> decl_id list"
  EvaluateReflection :: "sema \<Rightarrow> qualtype \<Rightarrow> reflected_construct"
  ReflectedConstruct :: "int \<Rightarrow> reflected_construct"
  RequireCppxMetaNamespace :: "sema \<Rightarrow> decl_id option \<times> sema"
  PushDeclContext :: "sema \<Rightarrow> scope_ptr \<Rightarrow> decl_id \<Rightarrow> sema"
  PopDeclContext :: "sema \<Rightarrow> sema"

subsection \<open>Capture and placeholder builder\<close>

text \<open>\<open>FindCapturesInScope\<close>: the loop over \<open>S->decls()\<close>, \<open>Vars\<close> is the output vector.\<close>

fun FindCapturesInScope_loop :: "sema \<Rightarrow> decl_id list \<Rightarrow> decl_id list \<Rightarrow> decl_id list" where
  "FindCapturesInScope_loop s [] Vars = Vars"
| "FindCapturesInScope_loop s (D # Ds) Vars =
     (if isa_VarDecl (kind (decls s D))
      then (if local_var_or_parm (decls s D) \<and> hasInit (decls s D)
            then FindCapturesInScope_loop s Ds (Vars @ [D])
            else FindCapturesInScope_loop s Ds Vars)
      else FindCapturesInScope_loop s Ds Vars)"

definition FindCapturesInScope :: "sema \<Rightarrow> scope \<Rightarrow> decl_id list \<Rightarrow> decl_id list" where
  "FindCapturesInScope s S Vars = FindCapturesInScope_loop s (scope_decls S) Vars"

text \<open>
  The \<open>while\<close> loop of \<open>FindCaptures\<close> with the \<open>if (S)\<close> after it: a scope whose entity
  is \<open>Fn\<close> ends the walk and is searched by the trailing \<open>if\<close>; running off the chain
  (\<open>S\<close> null) ends it too.
\<close>

fun FindCaptures_loop :: "sema \<Rightarrow> scope_ptr \<Rightarrow> decl_id option \<Rightarrow> decl_id list \<Rightarrow> decl_id list" where
  "FindCaptures_loop s [] Fn Vars = Vars"
| "FindCaptures_loop s (S # Parent) Fn Vars =
     (if entity S \<noteq> Fn
      then FindCaptures_loop s Parent Fn (FindCapturesInScope s S Vars)
      else FindCapturesInScope s S Vars)"

definition FindCaptures :: "sema \<Rightarrow> scope_ptr \<Rightarrow> decl_id option \<Rightarrow> decl_id list
    \<Rightarrow> decl_id list option" where
  "FindCaptures s S Fn Vars = do {
     _ \<leftarrow> assert (S \<noteq> []);
     Some (FindCaptures_loop s S Fn Vars)
   }"

definition ReferenceCaptures :: "sema \<Rightarrow> decl_id list \<Rightarrow> expr list" where
  "ReferenceCaptures s Vars =
     map (\<lambda>D. ImplicitCastExpr (decl_type (decls s D)) CK_LValueToRValue
                (DeclRefExpr D (decl_type (decls s D)))) Vars"

text \<open>\<open>GetVariableFromCapture\<close>: each \<open>cast<>\<close> asserts the class of its operand.\<close>

fun GetVariableFromCapture :: "sema \<Rightarrow> expr \<Rightarrow> decl_id option" where
  "GetVariableFromCapture s (ImplicitCastExpr T K (DeclRefExpr D T')) =
     (if isa_VarDecl (kind (decls s D)) then Some D else None)"
| "GetVariableFromCapture s E = None"

text \<open>
  Modelled from the spec: \<open>VarDecl::Create\<close> and \<open>CXXFragmentDecl::Create\<close> allocate the
  declaration in the given context and do not add it to the members of the context.
\<close>

definition VarDecl_Create :: "sema \<Rightarrow> decl_id \<Rightarrow> source_location \<Rightarrow> string option
    \<Rightarrow> qualtype \<Rightarrow> storage_class \<Rightarrow> decl_id \<times> sema" where
  "VarDecl_Create s DC IdLoc Ident T SC = allocate s (new_decl VarDecl DC IdLoc Ident T SC)"

definition CreatePlaceholder :: "sema \<Rightarrow> decl_id \<Rightarrow> expr \<Rightarrow> sema option" where
  "CreatePlaceholder s Frag E = do {
     Var \<leftarrow> GetVariableFromCapture s E;
     let IdLoc = location (decls s Var);
     let Ident = ident_info (decls s Var);
     let T = DependentTy;
     let (Placeholder, s1) = VarDecl_Create s Frag IdLoc Ident T SC_Static;
     let s2 = update_decl s1 Placeholder (\<lambda>d. d\<lparr> is_constexpr := True \<rparr>);
     let s3 = update_decl s2 Placeholder (\<lambda>d. d\<lparr> implicit := True \<rparr>);
     let s4 = update_decl s3 Placeholder (\<lambda>d. d\<lparr> var_init_style := CInit \<rparr>);
     let s5 = update_decl s4 Placeholder (\<lambda>d. d\<lparr> init := Some (OpaqueValueExpr IdLoc T) \<rparr>);
     let s6 = update_decl s5 Placeholder (\<lambda>d. d\<lparr> referenced := True \<rparr>);
     let s7 = update_decl s6 Placeholder (\<lambda>d. d\<lparr> used := True \<rparr>);
     Some (addDecl s7 Frag Placeholder)
   }"

fun CreatePlaceholders :: "sema \<Rightarrow> decl_id \<Rightarrow> expr list \<Rightarrow> sema option" where
  "CreatePlaceholders s Frag [] = Some s"
| "CreatePlaceholders s Frag (E # Es) = do {
     s1 \<leftarrow> CreatePlaceholder s Frag E;
     CreatePlaceholders s1 Frag Es
   }"

text \<open>
  \<open>Sema::ActOnCXXFragmentCapture\<close>. \<open>CurScope\<close> and the result of
  \<open>getCurFunctionDecl()\<close> are passed in.
\<close>

definition ActOnCXXFragmentCapture :: "sema \<Rightarrow> scope_ptr \<Rightarrow> decl_id option \<Rightarrow> expr list
    \<Rightarrow> expr list option" where
  "ActOnCXXFragmentCapture s CurScope CurFn Captures = do {
     _ \<leftarrow> assert (Captures = []);
     Vars \<leftarrow> FindCaptures s CurScope CurFn [];
     Some (ReferenceCaptures s Vars)
   }"

definition CXXFragmentDecl_Create :: "sema \<Rightarrow> decl_id \<Rightarrow> source_location \<Rightarrow> decl_id \<times> sema" where
  "CXXFragmentDecl_Create s DC Loc =
     allocate s (new_decl CXXFragmentDecl DC Loc None VoidTy SC_None)"

definition ActOnStartCXXFragment :: "host \<Rightarrow> sema \<Rightarrow> scope_ptr \<Rightarrow> source_location
    \<Rightarrow> expr list \<Rightarrow> (decl_id \<times> sema) option" where
  "ActOnStartCXXFragment h s S Loc Captures = do {
     let (Fragment, s1) = CXXFragmentDecl_Create s (CurContext s) Loc;
     s2 \<leftarrow> CreatePlaceholders s1 Fragment Captures;
     let s3 = (if S \<noteq> [] then PushDeclContext h s2 S Fragment else s2);
     Some (Fragment, s3)
   }"

definition ActOnFinishCXXFragment :: "host \<Rightarrow> sema \<Rightarrow> scope_ptr \<Rightarrow> decl_id option
    \<Rightarrow> decl_id option \<Rightarrow> (decl_id option \<times> sema) option" where
  "ActOnFinishCXXFragment h s S Fragment Content = do {
     (FD, s1) \<leftarrow> (case Fragment of
         None \<Rightarrow> Some (None, s)
       | Some F \<Rightarrow> do {
           _ \<leftarrow> assert (isa_CXXFragmentDecl (kind (decls s F)));
           Some (Some F, update_decl s F (\<lambda>d. d\<lparr> content := Content \<rparr>))
         });
     let s2 = (if S \<noteq> [] then PopDeclContext h s1 else s1);
     Some (FD, s2)
   }"

subsection \<open>Types and values\<close>

text \<open>
  Modelled from the spec: the queries on types the file uses (\<open>getCanonicalType\<close>,
  \<open>isRecordType\<close>, \<open>getAsCXXRecordDecl\<close>, \<open>getAsTagDecl\<close>, \<open>Expr::getType\<close>), defined
  outside this file. Types of the model carry no sugar: a type is its own canonical type.
\<close>

definition getCanonicalType :: "qualtype \<Rightarrow> qualtype" where
  "getCanonicalType T = T"

definition isRecordType :: "qualtype \<Rightarrow> bool" where
  "isRecordType T = (case T of RecordTy D \<Rightarrow> True | _ \<Rightarrow> False)"

definition getAsCXXRecordDecl :: "sema \<Rightarrow> qualtype \<Rightarrow> decl_id option" where
  "getAsCXXRecordDecl s T =
     (case T of RecordTy D \<Rightarrow> (if isa_CXXRecordDecl (kind (decls s D)) then Some D else None)
      | _ \<Rightarrow> None)"

definition getAsTagDecl :: "sema \<Rightarrow> qualtype \<Rightarrow> decl_id option" where
  "getAsTagDecl s T = (case T of RecordTy D \<Rightarrow> Some D | _ \<Rightarrow> None)"

fun expr_type :: "expr \<Rightarrow> qualtype" where
  "expr_type (DeclRefExpr D T) = T"
| "expr_type (ImplicitCastExpr T K E) = T"
| "expr_type (OpaqueValueExpr L T) = T"
| "expr_type (OtherExpr n T) = T"

text \<open>
  Modelled from the spec: the accessors of the constant evaluator's values, struct-shaped
  aggregates with positional field access; each asserts the kind of the value and the
  index.
\<close>

definition getInt :: "apvalue \<Rightarrow> int option" where
  "getInt V = (case V of APV_Int i \<Rightarrow> Some i | _ \<Rightarrow> None)"

definition getStructNumFields :: "apvalue \<Rightarrow> nat option" where
  "getStructNumFields V = (case V of APV_Struct Bs Fs \<Rightarrow> Some (length Fs) | _ \<Rightarrow> None)"

definition getStructField :: "apvalue \<Rightarrow> nat \<Rightarrow> apvalue option" where
  "getStructField V i =
     (case V of APV_Struct Bs Fs \<Rightarrow> (if i < length Fs then Some (Fs ! i) else None)
      | _ \<Rightarrow> None)"

definition getStructFields :: "apvalue \<Rightarrow> apvalue list" where
  "getStructFields V = (case V of APV_Struct Bs Fs \<Rightarrow> Fs | _ \<Rightarrow> [])"

subsection \<open>Injection context\<close>

text \<open>The constructor links the new context in front of the current one.\<close>

definition InjectionContext_new :: "sema \<Rightarrow> decl_id \<Rightarrow> sema" where
  "InjectionContext_new s Injectee =
     s\<lparr> CurrentInjectionContext :=
          \<lparr> cxt_injectee = Injectee, DeclSubsts = Map.empty, PlaceholderSubsts = Map.empty \<rparr>
          # CurrentInjectionContext s \<rparr>"

text \<open>
  The three mutators act on the context object the caller has just constructed, which is
  the current one.
\<close>

definition AddDeclSubstitution :: "sema \<Rightarrow> decl_id \<Rightarrow> decl_id \<Rightarrow> sema option" where
  "AddDeclSubstitution s Orig New =
     (case CurrentInjectionContext s of
        [] \<Rightarrow> None
      | C # Prev \<Rightarrow> do {
          _ \<leftarrow> assert (DeclSubsts C Orig = None);
          Some (s\<lparr> CurrentInjectionContext :=
                    C\<lparr> DeclSubsts := (DeclSubsts C)(Orig \<mapsto> New) \<rparr> # Prev \<rparr>)
        })"

definition AddPlaceholderSubstitution :: "sema \<Rightarrow> decl_id \<Rightarrow> qualtype \<Rightarrow> apvalue \<Rightarrow> sema option" where
  "AddPlaceholderSubstitution s Orig T V =
     (case CurrentInjectionContext s of
        [] \<Rightarrow> None
      | C # Prev \<Rightarrow> do {
          _ \<leftarrow> assert (isa_VarDecl (kind (decls s Orig)));
          _ \<leftarrow> assert (PlaceholderSubsts C Orig = None);
          Some (s\<lparr> CurrentInjectionContext :=
                    C\<lparr> PlaceholderSubsts :=
                         (PlaceholderSubsts C)(Orig \<mapsto> \<lparr> tv_type = T, tv_value = V \<rparr>) \<rparr>
                    # Prev \<rparr>)
        })"

text \<open>
  The loop of \<open>AddPlaceholderSubstitutions\<close>: \<open>PlaceIter\<close> and \<open>FieldIter\<close> are the
  remaining members of the fragment and the remaining fields of the reflection class;
  dereferencing an exhausted iterator is the abort.
\<close>

fun AddPlaceholderSubstitutions_loop :: "sema \<Rightarrow> decl_id list \<Rightarrow> decl_id list \<Rightarrow> apvalue list
    \<Rightarrow> sema option" where
  "AddPlaceholderSubstitutions_loop s PlaceIter FieldIter [] = Some s"
| "AddPlaceholderSubstitutions_loop s PlaceIter FieldIter (Val # Captures) =
     (case PlaceIter of
        [] \<Rightarrow> None
      | Var # PlaceIter' \<Rightarrow>
          (case FieldIter of
             [] \<Rightarrow> None
           | F # FieldIter' \<Rightarrow> do {
               s1 \<leftarrow> AddPlaceholderSubstitution s Var (decl_type (decls s F)) Val;
               AddPlaceholderSubstitutions_loop s1 PlaceIter' FieldIter' Captures
             }))"

definition fields_of :: "sema \<Rightarrow> decl_id \<Rightarrow> decl_id list" where
  "fields_of s Class = filter (\<lambda>D. isa_FieldDecl (kind (decls s D))) (members s Class)"

definition AddPlaceholderSubstitutions :: "sema \<Rightarrow> decl_id \<Rightarrow> decl_id \<Rightarrow> apvalue list
    \<Rightarrow> sema option" where
  "AddPlaceholderSubstitutions s Fragment Reflection Captures = do {
     _ \<leftarrow> assert (isa_CXXFragmentDecl (kind (decls s Fragment)));
     AddPlaceholderSubstitutions_loop s (members s Fragment) (fields_of s Reflection) Captures
   }"

subsection \<open>Reflection resolver\<close>

definition GetDeclFromReflection :: "host \<Rightarrow> sema \<Rightarrow> qualtype \<Rightarrow> source_location
    \<Rightarrow> decl_id option \<times> sema" where
  "GetDeclFromReflection h s Ty Loc =
     (let Construct = EvaluateReflection h s Ty;
          Injection = (case Construct of
                         ReflType T \<Rightarrow> getAsCXXRecordDecl s T
                       | ReflDecl D \<Rightarrow> Some D
                       | ReflNone \<Rightarrow> None)
      in if Injection = None
         then (None, emit s (Diag Loc err_reflection_not_a_decl []))
         else (Injection, s))"

text \<open>Modelled from the spec: \<open>DeclContext::isInlineNamespace\<close>, an inline-namespace layer.\<close>

definition isInlineNamespace :: "decl \<Rightarrow> bool" where
  "isInlineNamespace d = (isNamespace (kind d) \<and> inline_namespace d)"

text \<open>
  Modelled from the spec: \<open>DeclContext::Equals\<close> against a possibly null context (the
  test that a specialization lives in the designated namespace).
\<close>

definition Equals :: "decl_id \<Rightarrow> decl_id option \<Rightarrow> bool" where
  "Equals Owner DC = (DC = Some Owner)"

definition ReferencedReflectionClass :: "host \<Rightarrow> sema \<Rightarrow> expr \<Rightarrow> decl_id option \<times> sema" where
  "ReferencedReflectionClass h s E =
     (let ExprTy = getCanonicalType (expr_type E) in
      case ExprTy of
        RecordTy Class \<Rightarrow>
          if \<not> isa_ClassTemplateSpecializationDecl (kind (decls s Class)) then (None, s)
          else
            let Owner = decl_context (decls s Class);
                Owner' = (if isInlineNamespace (decls s Owner)
                          then decl_context (decls s Owner) else Owner);
                (Meta, s1) = RequireCppxMetaNamespace h s
            in if \<not> Equals Owner' Meta then (None, s1) else (Some Class, s1)
      | _ \<Rightarrow> (None, s))"

text \<open>
  \<open>ReferencesFunction\<close>. \<open>RefTy\<close> is the caller's variable, returned with the result.
  \<open>getIdentifier()->getName()\<close> dereferences the identifier: a declaration without one
  aborts. \<open>getTemplateArgs()[0]\<close> asserts that there is an argument.
\<close>

definition getName :: "decl \<Rightarrow> string option" where
  "getName d = ident_info d"

definition ReferencesFunction :: "host \<Rightarrow> sema \<Rightarrow> expr \<Rightarrow> qualtype option
    \<Rightarrow> (bool \<times> qualtype option \<times> sema) option" where
  "ReferencesFunction h s E RefTy =
     (case ReferencedReflectionClass h s E of
        (None, s1) \<Rightarrow> Some (False, RefTy, s1)
      | (Some Spec, s1) \<Rightarrow> do {
          Name \<leftarrow> getName (decls s1 Spec);
          if Name = ''function'' then Some (True, Some (RecordTy Spec), s1)
          else if Name = ''reflected_tuple'' then
            (case template_args (decls s1 Spec) of
               [] \<Rightarrow> None
             | First # Rest \<Rightarrow>
                 (case First of
                    TA_Other \<Rightarrow> Some (False, RefTy, s1)
                  | TA_Type T \<Rightarrow>
                      (case T of
                         RecordTy Class \<Rightarrow> do {
                           ClassName \<leftarrow> getName (decls s1 Class);
                           if ClassName \<noteq> ''parm_info'' then Some (False, RefTy, s1)
                           else if \<not> isRecord (kind (decls s1 (decl_context (decls s1 Class))))
                           then Some (False, RefTy, s1)
                           else do {
                             let Class' = decl_context (decls s1 Class);
                             OuterName \<leftarrow> getName (decls s1 Class');
                             if OuterName \<noteq> ''function'' \<and> OuterName \<noteq> ''method''
                             then Some (False, RefTy, s1)
                             else Some (True, Some (RecordTy Class'), s1)
                           }
                         }
                       | _ \<Rightarrow> Some (False, RefTy, s1))))
          else Some (False, RefTy, s1)
        })"

definition ReferencesParameter :: "host \<Rightarrow> sema \<Rightarrow> expr \<Rightarrow> qualtype option
    \<Rightarrow> (bool \<times> qualtype option \<times> sema) option" where
  "ReferencesParameter h s E RefTy =
     (case ReferencedReflectionClass h s E of
        (None, s1) \<Rightarrow> Some (False, RefTy, s1)
      | (Some Spec, s1) \<Rightarrow> do {
          Name \<leftarrow> getName (decls s1 Spec);
          if Name = ''parameter'' then Some (True, Some (RecordTy Spec), s1)
          else Some (False, RefTy, s1)
        })"

subsection \<open>Injection engine: checks\<close>

definition DescribeInjectionTarget :: "decl_kind \<Rightarrow> int option" where
  "DescribeInjectionTarget DC =
     (if isFunctionOrMethod DC then Some 0
      else if isRecord DC then Some 1
      else if isNamespace DC then Some 2
      else if isTranslationUnit DC then Some 3
      else None)"

definition InvalidInjection :: "sema \<Rightarrow> source_location \<Rightarrow> int \<Rightarrow> decl_id
    \<Rightarrow> (bool \<times> sema) option" where
  "InvalidInjection s POI SK DC = do {
     target \<leftarrow> DescribeInjectionTarget (kind (decls s DC));
     Some (False, emit s (Diag POI err_invalid_injection [SK, target]))
   }"

text \<open>
  \<open>GetModifications\<close> recurses into the first base subobject of the value when the
  class has no member of the name; \<open>getStructBase(0)\<close>, \<open>Lookup.front()\<close> and the
  casts abort as the accessors do.
\<close>

fun GetModifications :: "host \<Rightarrow> sema \<Rightarrow> apvalue \<Rightarrow> qualtype \<Rightarrow> string \<Rightarrow> apvalue option" where
  "GetModifications h s (APV_Struct Bases Fields) T N = do {
     Class \<leftarrow> getAsCXXRecordDecl s T;
     let Lookup = lookup h s Class N;
     _ \<leftarrow> assert (length Lookup \<le> 1);
     if Lookup = [] \<and> bases (decls s Class) \<noteq> []
     then (case Bases of
             [] \<Rightarrow> None
           | Base0 # Rest \<Rightarrow> GetModifications h s Base0 (hd (bases (decls s Class))) N)
     else (case Lookup of
             [] \<Rightarrow> None
           | F # Rest \<Rightarrow> do {
               _ \<leftarrow> assert (isa_FieldDecl (kind (decls s F)));
               getStructField (APV_Struct Bases Fields) (field_index (decls s F))
             })
   }"
| "GetModifications h s V T N = None"

definition CheckInjectionContexts :: "sema \<Rightarrow> source_location \<Rightarrow> decl_id \<Rightarrow> decl_id
    \<Rightarrow> (bool \<times> sema) option" where
  "CheckInjectionContexts s POI Injection Injectee =
     (if isRecord (kind (decls s Injection)) \<and> \<not> isRecord (kind (decls s Injectee))
      then InvalidInjection s POI 1 Injectee
      else if isFileContext (kind (decls s Injection)) \<and> \<not> isFileContext (kind (decls s Injectee))
      then InvalidInjection s POI 0 Injectee
      else Some (True, s))"

definition CheckInjectionKind :: "sema \<Rightarrow> source_location \<Rightarrow> decl_id \<Rightarrow> decl_id \<Rightarrow> bool \<times> sema" where
  "CheckInjectionKind s POI Injection Injectee =
     (if isa_VarDecl (kind (decls s Injection))
         \<and> local_storage (decls s Injection)
         \<and> \<not> isFunctionOrMethod (kind (decls s Injectee))
      then (False, emit s (Diag POI err_injecting_local_into_invalid_scope
                             [if isRecord (kind (decls s Injectee)) then 1 else 0]))
      else (True, s))"

subsection \<open>Injection engine: fragment expansion\<close>

text \<open>
  The loop of \<open>InjectFragment\<close> over the members of the fragment's content, taken when
  the loop starts. \<open>continue\<close> is the recursive call on the remaining members.
\<close>

fun InjectFragment_loop :: "host \<Rightarrow> decl_id \<Rightarrow> decl_id \<Rightarrow> decl_id list \<Rightarrow> decl_id list \<Rightarrow> sema
    \<Rightarrow> decl_id list \<times> sema" where
  "InjectFragment_loop h Injectee InjecteeDC [] Decls s = (Decls, s)"
| "InjectFragment_loop h Injectee InjecteeDC (D # Ds) Decls s =
     (if isa_CXXRecordDecl (kind (decls s D)) \<and> injected_class_name (decls s D)
      then InjectFragment_loop h Injectee InjecteeDC Ds Decls s
      else
        (case SubstDecl h s D InjecteeDC of
           (None, s1) \<Rightarrow>
             InjectFragment_loop h Injectee InjecteeDC Ds Decls (setInvalidDecl s1 Injectee)
         | (Some R, s1) \<Rightarrow>
             if invalid_decl (decls s1 R)
             then InjectFragment_loop h Injectee InjecteeDC Ds Decls (setInvalidDecl s1 Injectee)
             else InjectFragment_loop h Injectee InjecteeDC Ds (Decls @ [R]) s1))"

text \<open>
  \<open>InjectFragment\<close> returns its \<open>bool\<close>, the output vector \<open>Decls\<close> and the state. The
  scoped objects (\<open>InjectionContext\<close>, \<open>ContextRAII\<close>) are undone on the way out.
\<close>

definition InjectFragment :: "host \<Rightarrow> sema \<Rightarrow> source_location \<Rightarrow> qualtype \<Rightarrow> apvalue
    \<Rightarrow> decl_id \<Rightarrow> decl_id \<Rightarrow> decl_id list \<Rightarrow> (bool \<times> decl_id list \<times> sema) option" where
  "InjectFragment h s POI ReflectionTy ReflectionVal Injectee Injection Decls = do {
     _ \<leftarrow> assert (isa_CXXRecordDecl (kind (decls s Injection))
                    \<or> isa_NamespaceDecl (kind (decls s Injection)));
     InjecteeDC \<leftarrow> castToDeclContext s Injectee;
     InjectionDC \<leftarrow> castToDeclContext s Injection;
     (ok, s1) \<leftarrow> CheckInjectionContexts s POI InjectionDC InjecteeDC;
     if \<not> ok then Some (False, Decls, s1)
     else do {
       NumCaptures \<leftarrow> getStructNumFields ReflectionVal;
       let Captures = (if NumCaptures \<noteq> 0 then getStructFields ReflectionVal else []);
       let Class = getAsCXXRecordDecl s1 ReflectionTy;
       let Fragment = decl_context (decls s1 Injection);
       _ \<leftarrow> assert (isa_CXXFragmentDecl (kind (decls s1 Fragment)));
       let Prev = CurrentInjectionContext s1;
       let s2 = InjectionContext_new s1 InjecteeDC;
       s3 \<leftarrow> AddDeclSubstitution s2 Injection Injectee;
       Class' \<leftarrow> Class;
       s4 \<leftarrow> AddPlaceholderSubstitutions s3 Fragment Class' Captures;
       let SavedContext = CurContext s4;
       let s5 = s4\<lparr> CurContext := InjecteeDC \<rparr>;
       let (Decls', s6) = InjectFragment_loop h Injectee InjecteeDC (members s5 InjectionDC) Decls s5;
       Some (True, Decls', s6\<lparr> CurContext := SavedContext, CurrentInjectionContext := Prev \<rparr>)
     }
   }"

subsection \<open>Injection engine: single-declaration copy\<close>

definition RewriteAsStaticMemberVariable :: "host \<Rightarrow> sema \<Rightarrow> decl_id \<Rightarrow> decl_id
    \<Rightarrow> decl_id option \<times> sema" where
  "RewriteAsStaticMemberVariable h s D Owner =
     (case SubstDeclarationNameInfo h s (ident_info (decls s D)) of
        None \<Rightarrow> (None, s)
      | Some DNI \<Rightarrow>
          (case SubstType h s (decl_type (decls s D)) of
             None \<Rightarrow> (None, s)
           | Some TSI \<Rightarrow>
               let (R, s1) = allocate s (new_decl VarDecl Owner (location (decls s D))
                                          (Some DNI) TSI SC_Static);
                   s2 = update_decl s1 R (\<lambda>d. d\<lparr> access := access (decls s1 D) \<rparr>);
                   s3 = addDecl s2 Owner R
               in (case in_class_initializer (decls s3 D) of
                     None \<Rightarrow> (Some R, s3)
                   | Some OldInit \<Rightarrow>
                       (case SubstInitializer h (s3\<lparr> CurContext := decl_context (decls s3 R) \<rparr>)
                               OldInit of
                          ExprError \<Rightarrow> (Some R, setInvalidDecl s3 R)
                        | ExprValid (Some Init) \<Rightarrow> (Some R, AddInitializerToDecl h s3 R Init)
                        | ExprValid None \<Rightarrow> (Some R, ActOnUninitializedDecl h s3 R)))))"

text \<open>The trait fields are read as integers; the cast to \<open>bool\<close> is the test against 0.\<close>

definition trait :: "apvalue \<Rightarrow> nat \<Rightarrow> int option" where
  "trait Traits i = do { F \<leftarrow> getStructField Traits i; getInt F }"

text \<open>
  The three trait blocks of \<open>CopyDeclaration\<close>. Each returns \<open>(False, _)\<close> where the
  source returns \<open>false\<close>, and \<open>(True, _)\<close> where it goes on to the next block.
\<close>

definition setAccess :: "sema \<Rightarrow> decl_id \<Rightarrow> access_specifier \<Rightarrow> sema" where
  "setAccess s D a = update_decl s D (\<lambda>d. d\<lparr> access := a \<rparr>)"

definition update_access :: "sema \<Rightarrow> source_location \<Rightarrow> int \<Rightarrow> decl_id \<Rightarrow> decl_id
    \<Rightarrow> (bool \<times> sema) option" where
  "update_access s POI Access InjecteeDC Result =
     (if Access \<noteq> 0 then
        if \<not> isRecord (kind (decls s (decl_context (decls s Result))))
        then Some (False, emit s (Diag POI err_modifies_mem_spec_of_non_member [0]))
        else if Access = 1 then Some (True, setAccess s Result AS_public)
        else if Access = 2 then Some (True, setAccess s Result AS_private)
        else if Access = 3 then Some (True, setAccess s Result AS_protected)
        else None
      else if isa_CXXRecordDecl (kind (decls s InjecteeDC))
      then (if access (decls s Result) = AS_none
            then Some (True, setAccess s Result AS_public) else Some (True, s))
      else Some (True, s))"

text \<open>
  In the \<open>FunctionDecl\<close> branch the source calls \<open>Var->setConstexpr(true)\<close>, where
  \<open>Var\<close> is the null result of the failed \<open>dyn_cast<VarDecl>\<close>.
\<close>

definition make_constexpr :: "host \<Rightarrow> sema \<Rightarrow> source_location \<Rightarrow> bool \<Rightarrow> decl_id
    \<Rightarrow> (bool \<times> sema) option" where
  "make_constexpr h s POI Constexpr Result =
     (if Constexpr then
        if isa_VarDecl (kind (decls s Result))
        then Some (True, CheckVariableDeclarationType h
                           (update_decl s Result (\<lambda>d. d\<lparr> is_constexpr := True \<rparr>)) Result)
        else if isa_CXXDestructorDecl (kind (decls s Result))
        then Some (False, emit s (Diag POI err_declration_cannot_be_made_constexpr []))
        else if isa_FunctionDecl (kind (decls s Result))
        then None
        else Some (False, emit s (Diag POI err_virtual_non_function []))
      else Some (True, s))"

definition make_virtual :: "host \<Rightarrow> sema \<Rightarrow> source_location \<Rightarrow> bool \<Rightarrow> bool \<Rightarrow> decl_id
    \<Rightarrow> bool \<times> sema" where
  "make_virtual h s POI Virtual Pure Result =
     (if Virtual then
        if \<not> isa_CXXMethodDecl (kind (decls s Result))
        then (False, emit s (Diag POI err_virtual_non_function []))
        else
          let s1 = update_decl s Result (\<lambda>d. d\<lparr> virtual_as_written := True \<rparr>) in
          if Pure then
            let Err = (if defaulted (decls s1 Result) then 2
                       else if deleted (decls s1 Result) then 3
                       else if defined (decls s1 Result) then 1
                       else (0::int))
            in if Err \<noteq> 0
               then (False, emit s1 (Diag POI err_cannot_make_pure_virtual [Err - 1]))
               else (True, CheckPureMethod h s1 Result)
          else (True, s1)
      else (True, s))"

text \<open>The block that instantiates a missing definition, with its two \<open>cast<>\<close>s.\<close>

definition instantiate_missing_definition :: "host \<Rightarrow> sema \<Rightarrow> source_location \<Rightarrow> decl_id
    \<Rightarrow> decl_id \<Rightarrow> sema option" where
  "instantiate_missing_definition h s POI Injection Result =
     (if isa_FunctionDecl (kind (decls s Injection)) then do {
        _ \<leftarrow> assert (isa_FunctionDecl (kind (decls s Result)));
        if this_declaration_is_definition (decls s Injection)
           \<and> \<not> this_declaration_is_definition (decls s Result)
        then Some (InstantiateFunctionDefinition h s POI Result)
        else Some s
      }
      else if isa_CXXRecordDecl (kind (decls s Injection)) then do {
        _ \<leftarrow> assert (isa_CXXRecordDecl (kind (decls s Result)));
        _ \<leftarrow> assert (has_definition (decls s Injection) \<longrightarrow> has_definition (decls s Result));
        Some s
      }
      else Some s)"

text \<open>\<open>CopyDeclaration\<close> from the unpacking of the traits to its last \<open>return\<close>.\<close>

definition CopyDeclaration_traits :: "host \<Rightarrow> sema \<Rightarrow> source_location \<Rightarrow> qualtype \<Rightarrow> apvalue
    \<Rightarrow> decl_id \<Rightarrow> decl_id \<Rightarrow> decl_id \<Rightarrow> decl_id list \<Rightarrow> (bool \<times> decl_id list \<times> sema) option" where
  "CopyDeclaration_traits h s POI ReflectionTy ReflectionVal Injectee InjecteeDC Injection Decls = do {
     Traits \<leftarrow> GetModifications h s ReflectionVal ReflectionTy ''mods'';
     Access \<leftarrow> trait Traits 1;
     Storage \<leftarrow> trait Traits 2;
     Constexpr \<leftarrow> trait Traits 3;
     Virtual \<leftarrow> trait Traits 4;
     Pure \<leftarrow> trait Traits 5;
     _ \<leftarrow> assert (Storage \<noteq> 2);
     _ \<leftarrow> assert (Storage \<noteq> 3);
     let (Result, s1) =
       (if isa_FieldDecl (kind (decls s Injection)) \<and> Storage = 1
        then RewriteAsStaticMemberVariable h s Injection InjecteeDC
        else SubstDecl h s Injection InjecteeDC);
     if Result = None \<or> invalid_decl (decls s1 (the Result))
     then Some (False, Decls, setInvalidDecl s1 Injectee)
     else do {
       let R = the Result;
       (ok2, s2) \<leftarrow> update_access s1 POI Access InjecteeDC R;
       if \<not> ok2 then Some (False, Decls, s2)
       else do {
         (ok3, s3) \<leftarrow> make_constexpr h s2 POI (Constexpr \<noteq> 0) R;
         if \<not> ok3 then Some (False, Decls, s3)
         else
           let (ok4, s4) = make_virtual h s3 POI (Virtual \<noteq> 0) (Pure \<noteq> 0) R in
           if \<not> ok4 then Some (False, Decls, s4)
           else do {
             s5 \<leftarrow> instantiate_missing_definition h s4 POI Injection R;
             let s6 = updateDecl h s5 (decl_context (decls s5 R)) R;
             Some (\<not> invalid_decl (decls s6 Injectee), Decls @ [R], s6)
           }
       }
     }
   }"

definition CopyDeclaration :: "host \<Rightarrow> sema \<Rightarrow> source_location \<Rightarrow> qualtype \<Rightarrow> apvalue
    \<Rightarrow> decl_id \<Rightarrow> decl_id \<Rightarrow> decl_id list \<Rightarrow> (bool \<times> decl_id list \<times> sema) option" where
  "CopyDeclaration h s POI ReflectionTy ReflectionVal Injectee Injection Decls = do {
     let InjectionDC = decl_context (decls s Injection);
     let InjectionOwner = InjectionDC;
     InjecteeDC \<leftarrow> castToDeclContext s Injectee;
     if isa_CXXRecordDecl (kind (decls s Injection)) \<and> injected_class_name (decls s Injection)
     then Some (True, Decls, s)
     else do {
       (ok, s1) \<leftarrow> CheckInjectionContexts s POI InjectionDC InjecteeDC;
       if \<not> ok then Some (False, Decls, s1)
       else
         let (ok', s2) = CheckInjectionKind s1 POI Injection InjecteeDC in
         if \<not> ok' then Some (False, Decls, s2)
         else do {
           let Prev = CurrentInjectionContext s2;
           let s3 = InjectionContext_new s2 InjecteeDC;
           s4 \<leftarrow> AddDeclSubstitution s3 InjectionOwner Injectee;
           let SavedContext = CurContext s4;
           let s5 = s4\<lparr> CurContext := InjecteeDC \<rparr>;
           (r, Decls', s6) \<leftarrow> CopyDeclaration_traits h s5 POI ReflectionTy ReflectionVal
                                  Injectee InjecteeDC Injection Decls;
           Some (r, Decls', s6\<lparr> CurContext := SavedContext, CurrentInjectionContext := Prev \<rparr>)
         }
     }
   }"

subsection \<open>Effect applicator\<close>

record injection_info =
  ReflectionType :: qualtype
  ReflectionValue :: apvalue
  InjecteeType :: "qualtype option"

datatype eval_effect = InjectionEffect injection_info | DiagnosticEffect apvalue

text \<open>
  \<open>ApplyInjection\<close>. The injection is not tested against null before it is handed on;
  both callees dereference it first thing. The local vector \<open>Decls\<close> is dropped.
\<close>

definition ApplyInjection :: "host \<Rightarrow> sema \<Rightarrow> source_location \<Rightarrow> injection_info
    \<Rightarrow> (bool \<times> sema) option" where
  "ApplyInjection h s POI II =
     (let (Injection, s1) = GetDeclFromReflection h s (ReflectionType II) POI;
          (Injectee, s2) = (case InjecteeType II of
                              Some T \<Rightarrow> GetDeclFromReflection h s1 T POI
                            | None \<Rightarrow> (Some (CurContext s1), s1))
      in case Injectee of
           None \<Rightarrow> Some (False, s2)
         | Some Injectee' \<Rightarrow> do {
             let Ty = ReflectionType II;
             let Val = ReflectionValue II;
             Class \<leftarrow> getAsCXXRecordDecl s2 Ty;
             Injection' \<leftarrow> Injection;
             (r, Decls, s3) \<leftarrow>
               (if fragment_class (decls s2 Class)
                then InjectFragment h s2 POI Ty Val Injectee' Injection' []
                else CopyDeclaration h s2 POI Ty Val Injectee' Injection' []);
             Some (r, s3)
           })"

text \<open>Printing appends to what has been written to \<open>llvm::errs()\<close>.\<close>

definition PrintDecl :: "sema \<Rightarrow> decl_id \<Rightarrow> sema" where
  "PrintDecl s D = s\<lparr> errs := errs s @ [PrintedDecl D] \<rparr>"

definition PrintType :: "sema \<Rightarrow> qualtype \<Rightarrow> sema" where
  "PrintType s T =
     (case getAsTagDecl s T of
        Some TD \<Rightarrow> PrintDecl s TD
      | None \<Rightarrow> s\<lparr> errs := errs s @ [PrintedType T] \<rparr>)"

definition ApplyDiagnostic :: "host \<Rightarrow> sema \<Rightarrow> source_location \<Rightarrow> apvalue
    \<Rightarrow> (bool \<times> sema) option" where
  "ApplyDiagnostic h s Loc Arg = do {
     i \<leftarrow> getInt Arg;
     (case ReflectedConstruct h i of
        ReflDecl D \<Rightarrow> Some (True, PrintDecl s D)
      | ReflType T \<Rightarrow> Some (True, PrintType s T)
      | ReflNone \<Rightarrow> None)
   }"

text \<open>The body of the loop of \<open>ApplyEffects\<close>: the result of one effect.\<close>

definition ApplyEffect :: "host \<Rightarrow> sema \<Rightarrow> source_location \<Rightarrow> eval_effect
    \<Rightarrow> (bool \<times> sema) option" where
  "ApplyEffect h s POI Effect =
     (case Effect of
        InjectionEffect Injection \<Rightarrow> ApplyInjection h s POI Injection
      | DiagnosticEffect DiagnosticArg \<Rightarrow> ApplyDiagnostic h s POI DiagnosticArg)"

text \<open>The loop of \<open>ApplyEffects\<close>, \<open>Ok &= ...\<close> on every iteration.\<close>

fun ApplyEffects_loop :: "host \<Rightarrow> source_location \<Rightarrow> eval_effect list \<Rightarrow> bool \<Rightarrow> sema
    \<Rightarrow> (bool \<times> sema) option" where
  "ApplyEffects_loop h POI [] Ok s = Some (Ok, s)"
| "ApplyEffects_loop h POI (Effect # Effects) Ok s = do {
     (r, s1) \<leftarrow> ApplyEffect h s POI Effect;
     ApplyEffects_loop h POI Effects (Ok \<and> r) s1
   }"

definition ApplyEffects :: "host \<Rightarrow> sema \<Rightarrow> source_location \<Rightarrow> eval_effect list
    \<Rightarrow> (bool \<times> sema) option" where
  "ApplyEffects h s POI Effects = ApplyEffects_loop h POI Effects True s"

subsection \<open>The properties, stated over the model\<close>

text \<open>
  A variable the capture builder is to collect: a variable declaration that is a local
  variable or a parameter and has an initializer.
\<close>

definition capturable :: "sema \<Rightarrow> decl_id \<Rightarrow> bool" where
  "capturable s D =
     (isa_VarDecl (kind (decls s D)) \<and> local_var_or_parm (decls s D) \<and> init (decls s D) \<noteq> None)"

text \<open>
  The scopes from the innermost one up to and including the first whose entity is the
  enclosing function (all of them when there is none).
\<close>

definition scopes_searched :: "decl_id option \<Rightarrow> scope_ptr \<Rightarrow> scope list" where
  "scopes_searched Fn S =
     takeWhile (\<lambda>Sc. entity Sc \<noteq> Fn) S @ take 1 (dropWhile (\<lambda>Sc. entity Sc \<noteq> Fn) S)"

text \<open>The placeholder \<open>constexpr auto v = <opaque>;\<close> for a captured variable \<open>v\<close>.\<close>

definition placeholder_for :: "decl_id \<Rightarrow> decl \<Rightarrow> decl" where
  "placeholder_for Frag v =
     (new_decl VarDecl Frag (location v) (ident_info v) DependentTy SC_Static)
       \<lparr> is_constexpr := True, implicit := True, var_init_style := CInit,
         init := Some (OpaqueValueExpr (location v) DependentTy),
         referenced := True, used := True \<rparr>"

text \<open>
  Every effect of the sequence attempted in order, each on the state the previous one
  left, with the list of the individual results.
\<close>

fun effect_results :: "host \<Rightarrow> source_location \<Rightarrow> eval_effect list \<Rightarrow> sema
    \<Rightarrow> (bool list \<times> sema) option" where
  "effect_results h POI [] s = Some ([], s)"
| "effect_results h POI (Effect # Effects) s = do {
     (r, s1) \<leftarrow> ApplyEffect h s POI Effect;
     (rs, s2) \<leftarrow> effect_results h POI Effects s1;
     Some (r # rs, s2)
   }"

text \<open>
  The state in which \<open>CopyDeclaration\<close> clones: the injection context of the copy, mapping
  the owner of the source to the injectee, is current, and the injectee is the current
  context. \<open>leave_scope\<close> is the way out of it.
\<close>

definition copy_scope :: "sema \<Rightarrow> decl_id \<Rightarrow> decl_id \<Rightarrow> sema" where
  "copy_scope s Injectee Injection =
     s\<lparr> CurrentInjectionContext :=
          \<lparr> cxt_injectee = Injectee,
            DeclSubsts = [decl_context (decls s Injection) \<mapsto> Injectee],
            PlaceholderSubsts = Map.empty \<rparr> # CurrentInjectionContext s,
        CurContext := Injectee \<rparr>"

definition leave_scope :: "sema \<Rightarrow> sema \<Rightarrow> sema" where
  "leave_scope s s' =
     s'\<lparr> CurContext := CurContext s, CurrentInjectionContext := CurrentInjectionContext s \<rparr>"

text \<open>
  The static member variable that takes the place of a field: the field's location and
  access (public when the field has none), the substituted name, type and initializer.
\<close>

definition static_member :: "decl_id \<Rightarrow> decl \<Rightarrow> string \<Rightarrow> qualtype \<Rightarrow> expr option \<Rightarrow> decl" where
  "static_member Owner field N T Init =
     (new_decl VarDecl Owner (location field) (Some N) T SC_Static)
       \<lparr> access := (if access field = AS_none then AS_public else access field),
         init := Init \<rparr>"

subsection \<open>A sample translation unit\<close>

text \<open>
  Concrete inputs on which the theorems below are instantiated. The translation unit 0
  holds the namespaces \<open>cppx\<close> (1) and \<open>cppx::meta\<close> (2) with an inline namespace (3), a
  function \<open>f\<close> (7) with the locals \<open>n\<close> (18, initialized), \<open>k\<close> (19, uninitialized) and
  the parameter \<open>p\<close> (20), a global \<open>g\<close> (21), a fragment (8) inside \<open>f\<close> whose content is
  the class 9 with its injected class name (10), a field \<open>x\<close> (11) and a defaulted method
  \<open>m\<close> (12), the class 13 of the fragment's reflection value, the class \<open>S\<close> (14) and the
  namespace \<open>N\<close> (15) as injectees, the reflection class 16 with its \<open>mods\<close> field (17),
  and a class \<open>T\<close> (22) with injected class name (23), field \<open>y\<close> (24) and defaulted method
  \<open>h\<close> (25). 4 is \<open>meta::reflected_tuple<U>\<close> for the unnamed class \<open>U\<close> (5), and 6 is a
  specialization outside \<open>meta\<close>.
\<close>

definition blank :: "decl_kind \<Rightarrow> decl_id \<Rightarrow> string option \<Rightarrow> decl" where
  "blank k dc idn = new_decl k dc 0 idn VoidTy SC_None"

definition sample_decls :: "decl_id \<Rightarrow> decl" where
  "sample_decls =
     (\<lambda>_. blank OtherDecl 0 None)
     (0 := blank TranslationUnitDecl 0 None,
      1 := blank NamespaceDecl 0 (Some ''cppx''),
      2 := blank NamespaceDecl 1 (Some ''meta''),
      3 := (blank NamespaceDecl 2 (Some ''v1''))\<lparr> inline_namespace := True \<rparr>,
      4 := (blank ClassTemplateSpecializationDecl 3 (Some ''reflected_tuple''))
             \<lparr> template_args := [TA_Type (RecordTy 5)] \<rparr>,
      5 := blank CXXRecordDecl 0 None,
      6 := blank ClassTemplateSpecializationDecl 0 (Some ''function''),
      7 := blank FunctionDecl 0 (Some ''f''),
      8 := (blank CXXFragmentDecl 7 None)\<lparr> content := Some 9 \<rparr>,
      9 := blank CXXRecordDecl 8 (Some ''C''),
      10 := (blank CXXRecordDecl 9 (Some ''C''))\<lparr> injected_class_name := True \<rparr>,
      11 := (blank FieldDecl 9 (Some ''x''))
              \<lparr> decl_type := OtherTy 0, access := AS_public \<rparr>,
      12 := (blank CXXMethodDecl 9 (Some ''m''))\<lparr> defaulted := True \<rparr>,
      13 := (blank CXXRecordDecl 7 None)\<lparr> fragment_class := True \<rparr>,
      14 := blank CXXRecordDecl 0 (Some ''S''),
      15 := blank NamespaceDecl 0 (Some ''N''),
      16 := blank CXXRecordDecl 2 (Some ''field''),
      17 := blank FieldDecl 16 (Some ''mods''),
      18 := (blank VarDecl 7 (Some ''n''))
              \<lparr> decl_type := OtherTy 0, init := Some (OtherExpr 1 (OtherTy 0)),
                local_var_or_parm := True, local_storage := True \<rparr>,
      19 := (blank VarDecl 7 (Some ''k''))
              \<lparr> decl_type := OtherTy 0, local_var_or_parm := True, local_storage := True \<rparr>,
      20 := (blank ParmVarDecl 7 (Some ''p''))
              \<lparr> decl_type := OtherTy 0, init := Some (OtherExpr 2 (OtherTy 0)),
                local_var_or_parm := True, local_storage := True \<rparr>,
      21 := (blank VarDecl 0 (Some ''g''))
              \<lparr> decl_type := OtherTy 0, init := Some (OtherExpr 3 (OtherTy 0)) \<rparr>,
      22 := blank CXXRecordDecl 0 (Some ''T''),
      23 := (blank CXXRecordDecl 22 (Some ''T''))\<lparr> injected_class_name := True \<rparr>,
      24 := (blank FieldDecl 22 (Some ''y''))
              \<lparr> decl_type := OtherTy 0, access := AS_private,
                in_class_initializer := Some (OtherExpr 4 (OtherTy 0)) \<rparr>,
      25 := (blank CXXMethodDecl 22 (Some ''h''))\<lparr> defaulted := True \<rparr>)"

definition sample_members :: "decl_id \<Rightarrow> decl_id list" where
  "sample_members =
     (\<lambda>_. [])
     (0 := [1, 5, 6, 7, 14, 15, 21, 22], 1 := [2], 2 := [3, 16], 3 := [4],
      9 := [10, 11, 12], 16 := [17], 22 := [23, 24, 25])"

definition sample_sema :: sema where
  "sample_sema =
     \<lparr> decls = sample_decls, members = sample_members, next_id = 30, CurContext = 7,
       CurrentInjectionContext = [], diags = [], errs = [] \<rparr>"

text \<open>The scopes at a point inside a block of \<open>f\<close>: the block, \<open>f\<close> itself, the file.\<close>

definition sample_scopes :: scope_ptr where
  "sample_scopes =
     [\<lparr> scope_decls = [18, 19], entity = None \<rparr>,
      \<lparr> scope_decls = [20], entity = Some 7 \<rparr>,
      \<lparr> scope_decls = [21, 7], entity = Some 0 \<rparr>]"

text \<open>
  A host whose declaration substitution clones the declaration into the owner, except for
  the declarations listed in \<open>failing\<close>, for which it returns null; pushing a context
  makes it current and popping returns to the context that contains the current one.
\<close>

definition clone_decl :: "decl_id list \<Rightarrow> sema \<Rightarrow> decl_id \<Rightarrow> decl_id \<Rightarrow> decl_id option \<times> sema" where
  "clone_decl failing s D Owner =
     (if D \<in> set failing then (None, s)
      else let (R, s1) = allocate s ((decls s D)\<lparr> decl_context := Owner \<rparr>)
           in (Some R, addDecl s1 Owner R))"

definition sample_host :: "decl_id list \<Rightarrow> host" where
  "sample_host failing =
     \<lparr> SubstDecl = clone_decl failing,
       SubstDeclarationNameInfo = (\<lambda>s N. N),
       SubstType = (\<lambda>s T. Some T),
       SubstInitializer = (\<lambda>s E. ExprValid (Some E)),
       AddInitializerToDecl = (\<lambda>s R E. update_decl s R (\<lambda>d. d\<lparr> init := Some E \<rparr>)),
       ActOnUninitializedDecl = (\<lambda>s R. s),
       CheckVariableDeclarationType = (\<lambda>s R. s),
       CheckPureMethod = (\<lambda>s R. update_decl s R (\<lambda>d. d\<lparr> pure := True \<rparr>)),
       InstantiateFunctionDefinition = (\<lambda>s L R. s),
       updateDecl = (\<lambda>s DC R. s),
       lookup = (\<lambda>s C N. filter (\<lambda>D. ident_info (decls s D) = Some N) (members s C)),
       EvaluateReflection = (\<lambda>s T. if T = RecordTy 13 then ReflType (RecordTy 9)
                                     else if T = RecordTy 15 then ReflDecl 15
                                     else ReflNone),
       ReflectedConstruct = (\<lambda>i. if i = 14 then ReflDecl 14 else ReflNone),
       RequireCppxMetaNamespace = (\<lambda>s. (Some 2, s)),
       PushDeclContext = (\<lambda>s S DC. s\<lparr> CurContext := DC \<rparr>),
       PopDeclContext = (\<lambda>s. s\<lparr> CurContext := decl_context (decls s (CurContext s)) \<rparr>) \<rparr>"

text \<open>A reflection value whose \<open>mods\<close> field holds the given modification traits.\<close>

definition mods_value :: "int \<Rightarrow> int \<Rightarrow> int \<Rightarrow> int \<Rightarrow> int \<Rightarrow> apvalue" where
  "mods_value a st c v p =
     APV_Struct [] [APV_Struct [] [APV_Int 0, APV_Int a, APV_Int st, APV_Int c, APV_Int v, APV_Int p]]"

definition sample_captures :: "expr list" where
  "sample_captures = ReferenceCaptures sample_sema [18, 20]"

definition sample_effects :: "eval_effect list" where
  "sample_effects =
     [DiagnosticEffect (APV_Int 14),
      InjectionEffect \<lparr> ReflectionType = RecordTy 13, ReflectionValue = APV_Struct [] [],
                        InjecteeType = Some (RecordTy 15) \<rparr>,
      DiagnosticEffect (APV_Int 14)]"

section \<open>Theorems\<close>

lemmas kind_tests =
  isa_VarDecl_def isa_FieldDecl_def isa_CXXMethodDecl_def isa_CXXDestructorDecl_def
  isa_FunctionDecl_def isa_CXXRecordDecl_def isa_ClassTemplateSpecializationDecl_def
  isa_NamespaceDecl_def isa_CXXFragmentDecl_def isDeclContext_def isFunctionOrMethod_def
  isRecord_def isNamespace_def isTranslationUnit_def isFileContext_def

subsection \<open>Sample translation unit, evaluated\<close>

lemma sample_decls_simps:
  "sample_decls 0 = blank TranslationUnitDecl 0 None"
  "sample_decls 1 = blank NamespaceDecl 0 (Some ''cppx'')"
  "sample_decls 2 = blank NamespaceDecl 1 (Some ''meta'')"
  "sample_decls 3 = (blank NamespaceDecl 2 (Some ''v1''))\<lparr> inline_namespace := True \<rparr>"
  "sample_decls 4 = (blank ClassTemplateSpecializationDecl 3 (Some ''reflected_tuple''))
             \<lparr> template_args := [TA_Type (RecordTy 5)] \<rparr>"
  "sample_decls 5 = blank CXXRecordDecl 0 None"
  "sample_decls 6 = blank ClassTemplateSpecializationDecl 0 (Some ''function'')"
  "sample_decls 7 = blank FunctionDecl 0 (Some ''f'')"
  "sample_decls 8 = (blank CXXFragmentDecl 7 None)\<lparr> content := Some 9 \<rparr>"
  "sample_decls 9 = blank CXXRecordDecl 8 (Some ''C'')"
  "sample_decls 10 = (blank CXXRecordDecl 9 (Some ''C''))\<lparr> injected_class_name := True \<rparr>"
  "sample_decls 11 = (blank FieldDecl 9 (Some ''x''))
              \<lparr> decl_type := OtherTy 0, access := AS_public \<rparr>"
  "sample_decls 12 = (blank CXXMethodDecl 9 (Some ''m''))\<lparr> defaulted := True \<rparr>"
  "sample_decls 13 = (blank CXXRecordDecl 7 None)\<lparr> fragment_class := True \<rparr>"
  "sample_decls 14 = blank CXXRecordDecl 0 (Some ''S'')"
  "sample_decls 15 = blank NamespaceDecl 0 (Some ''N'')"
  "sample_decls 16 = blank CXXRecordDecl 2 (Some ''field'')"
  "sample_decls 17 = blank FieldDecl 16 (Some ''mods'')"
  "sample_decls 18 = (blank VarDecl 7 (Some ''n''))
              \<lparr> decl_type := OtherTy 0, init := Some (OtherExpr 1 (OtherTy 0)),
                local_var_or_parm := True, local_storage := True \<rparr>"
  "sample_decls 19 = (blank VarDecl 7 (Some ''k''))
              \<lparr> decl_type := OtherTy 0, local_var_or_parm := True, local_storage := True \<rparr>"
  "sample_decls 20 = (blank ParmVarDecl 7 (Some ''p''))
              \<lparr> decl_type := OtherTy 0, init := Some (OtherExpr 2 (OtherTy 0)),
                local_var_or_parm := True, local_storage := True \<rparr>"
  "sample_decls 21 = (blank VarDecl 0 (Some ''g''))
              \<lparr> decl_type := OtherTy 0, init := Some (OtherExpr 3 (OtherTy 0)) \<rparr>"
  "sample_decls 22 = blank CXXRecordDecl 0 (Some ''T'')"
  "sample_decls 23 = (blank CXXRecordDecl 22 (Some ''T''))\<lparr> injected_class_name := True \<rparr>"
  "sample_decls 24 = (blank FieldDecl 22 (Some ''y''))
              \<lparr> decl_type := OtherTy 0, access := AS_private,
                in_class_initializer := Some (OtherExpr 4 (OtherTy 0)) \<rparr>"
  "sample_decls 25 = (blank CXXMethodDecl 22 (Some ''h''))\<lparr> defaulted := True \<rparr>"
  by (simp_all add: sample_decls_def)

lemma sample_members_simps:
  "sample_members 0 = [1, 5, 6, 7, 14, 15, 21, 22]"
  "sample_members 9 = [10, 11, 12]"
  "sample_members 13 = []"
  "sample_members 14 = []"
  "sample_members 15 = []"
  "sample_members 16 = [17]"
  "sample_members 22 = [23, 24, 25]"
  "sample_members 8 = []"
  by (simp_all add: sample_members_def)

lemmas sample_simps =
  sample_sema_def sample_decls_simps sample_members_simps blank_def new_decl_def

subsection \<open>Capture discovery\<close>

lemma FindCapturesInScope_loop_filter:
  "FindCapturesInScope_loop s Ds Vars = Vars @ filter (capturable s) Ds"
  by (induction Ds arbitrary: Vars) (auto simp: capturable_def hasInit_def)

lemma FindCaptures_loop_concat:
  "FindCaptures_loop s S Fn Vars =
     Vars @ concat (map (\<lambda>Sc. filter (capturable s) (scope_decls Sc)) (scopes_searched Fn S))"
  by (induction S arbitrary: Vars)
     (simp_all add: scopes_searched_def FindCapturesInScope_def FindCapturesInScope_loop_filter)

text \<open>
  Claim C9. With a non-null scope, capture discovery returns, scope by scope from the
  innermost one up to and including the scope of the enclosing function and in the order
  in which each scope lists its declarations, exactly the variable declarations that are
  locals or parameters and have an initializer; every captured variable has an
  initializer.
\<close>

theorem capture_discovery:
  assumes "S \<noteq> []"
  shows "FindCaptures s S Fn [] =
           Some (concat (map (\<lambda>Sc. filter (capturable s) (scope_decls Sc)) (scopes_searched Fn S)))
         \<and> (\<forall>Vars. FindCaptures s S Fn [] = Some Vars \<longrightarrow>
               (\<forall>V \<in> set Vars. isa_VarDecl (kind (decls s V)) \<and> local_var_or_parm (decls s V)
                    \<and> init (decls s V) \<noteq> None))"
  using assms
  by (auto simp: FindCaptures_def assert_def FindCaptures_loop_concat capturable_def)

theorem capture_discovery_witness:
  "sample_scopes \<noteq> []
   \<and> FindCaptures sample_sema sample_scopes (Some 7) [] = Some [18, 20]
   \<and> scopes_searched (Some 7) sample_scopes = take 2 sample_scopes
   \<and> init (decls sample_sema 19) = None"
proof -
  have h: "sample_scopes \<noteq> []" by (simp add: sample_scopes_def)
  have f: "filter (capturable sample_sema) [18, 19] = [18]"
          "filter (capturable sample_sema) [20] = [20]"
    by (simp_all add: capturable_def sample_simps isa_VarDecl_def)
  show ?thesis
    using capture_discovery[OF h, of sample_sema "Some 7"] f
    by (simp add: sample_scopes_def scopes_searched_def sample_simps)
qed

subsection \<open>Placeholders\<close>

text \<open>
  The capture list the parser gets from \<open>ActOnCXXFragmentCapture\<close> holds one reference
  per discovered variable, in discovery order, and each reference leads back to its
  variable.
\<close>

lemma captures_reference_their_variables:
  "\<forall>V \<in> set Vars. isa_VarDecl (kind (decls s V)) \<Longrightarrow>
   map (GetVariableFromCapture s) (ReferenceCaptures s Vars) = map Some Vars"
  by (induction Vars) (simp_all add: ReferenceCaptures_def)

lemma fragment_capture_references:
  assumes "CurScope \<noteq> []"
  shows "\<exists>Vars. FindCaptures s CurScope Fn [] = Some Vars
       \<and> ActOnCXXFragmentCapture s CurScope Fn [] = Some (ReferenceCaptures s Vars)
       \<and> map (GetVariableFromCapture s) (ReferenceCaptures s Vars) = map Some Vars"
proof -
  define Vars where "Vars = FindCaptures_loop s CurScope Fn []"
  have f: "FindCaptures s CurScope Fn [] = Some Vars"
    using assms by (simp add: FindCaptures_def assert_def Vars_def)
  have "\<forall>V \<in> set Vars. isa_VarDecl (kind (decls s V))"
    by (auto simp: Vars_def FindCaptures_loop_concat capturable_def)
  from captures_reference_their_variables[OF this] f show ?thesis
    by (simp add: ActOnCXXFragmentCapture_def assert_def)
qed

lemma CreatePlaceholder_Some:
  assumes "GetVariableFromCapture s E = Some V"
  shows "CreatePlaceholder s Frag E =
     Some (s\<lparr> decls := (decls s)(next_id s := placeholder_for Frag (decls s V)),
              members := ((members s)(next_id s := []))
                 (Frag := ((members s)(next_id s := [])) Frag @ [next_id s]),
              next_id := Suc (next_id s) \<rparr>)"
  using assms
  by (simp add: CreatePlaceholder_def VarDecl_Create_def allocate_def update_decl_def addDecl_def
      placeholder_for_def Let_def)

lemma GetVariableFromCapture_kind:
  "GetVariableFromCapture s E = Some V \<Longrightarrow> kind (decls s' V) = kind (decls s V)
   \<Longrightarrow> GetVariableFromCapture s' E = Some V"
  by (induction s E rule: GetVariableFromCapture.induct) (auto split: if_splits)

lemma CreatePlaceholders_spec:
  assumes "\<forall>E \<in> set Es. \<exists>V. GetVariableFromCapture s E = Some V \<and> V < next_id s"
    and "Frag < next_id s"
  shows "\<exists>s'. CreatePlaceholders s Frag Es = Some s'
      \<and> next_id s' = next_id s + length Es
      \<and> members s' Frag = members s Frag @ [next_id s ..< next_id s + length Es]
      \<and> (\<forall>i < next_id s. decls s' i = decls s i)
      \<and> CurContext s' = CurContext s
      \<and> (\<forall>I < length Es. decls s' (next_id s + I)
            = placeholder_for Frag (decls s (the (GetVariableFromCapture s (Es ! I)))))"
  using assms
proof (induction Es arbitrary: s)
  case Nil
  then show ?case by simp
next
  case (Cons E Es)
  from Cons.prems obtain V where V: "GetVariableFromCapture s E = Some V" "V < next_id s"
    by auto
  define s1 where "s1 = s\<lparr> decls := (decls s)(next_id s := placeholder_for Frag (decls s V)),
              members := ((members s)(next_id s := []))
                 (Frag := ((members s)(next_id s := [])) Frag @ [next_id s]),
              next_id := Suc (next_id s) \<rparr>"
  have step: "CreatePlaceholder s Frag E = Some s1"
    using CreatePlaceholder_Some[OF V(1)] by (simp add: s1_def)
  have old: "\<And>i. i < next_id s \<Longrightarrow> decls s1 i = decls s i"
    by (simp add: s1_def)
  have pre1: "\<forall>E' \<in> set Es. \<exists>V'. GetVariableFromCapture s1 E' = Some V' \<and> V' < next_id s1"
  proof
    fix E' assume "E' \<in> set Es"
    with Cons.prems obtain V' where V': "GetVariableFromCapture s E' = Some V'" "V' < next_id s"
      by auto
    have "GetVariableFromCapture s1 E' = Some V'"
      by (rule GetVariableFromCapture_kind[OF V'(1)]) (simp add: old V'(2))
    with V' show "\<exists>V'. GetVariableFromCapture s1 E' = Some V' \<and> V' < next_id s1"
      by (auto simp: s1_def)
  qed
  have same: "\<And>E'. E' \<in> set Es \<Longrightarrow> GetVariableFromCapture s1 E' = GetVariableFromCapture s E'"
  proof -
    fix E' assume "E' \<in> set Es"
    with Cons.prems obtain V' where V': "GetVariableFromCapture s E' = Some V'" "V' < next_id s"
      by auto
    have "GetVariableFromCapture s1 E' = Some V'"
      by (rule GetVariableFromCapture_kind[OF V'(1)]) (simp add: old V'(2))
    with V' show "GetVariableFromCapture s1 E' = GetVariableFromCapture s E'" by simp
  qed
  have frag1: "Frag < next_id s1" using Cons.prems by (simp add: s1_def)
  from Cons.IH[OF pre1 frag1] obtain s' where IH:
    "CreatePlaceholders s1 Frag Es = Some s'"
    "next_id s' = next_id s1 + length Es"
    "members s' Frag = members s1 Frag @ [next_id s1 ..< next_id s1 + length Es]"
    "\<forall>i < next_id s1. decls s' i = decls s1 i"
    "CurContext s' = CurContext s1"
    "\<forall>I < length Es. decls s' (next_id s1 + I)
        = placeholder_for Frag (decls s1 (the (GetVariableFromCapture s1 (Es ! I))))"
    by blast
  have n1: "next_id s1 = Suc (next_id s)" by (simp add: s1_def)
  have m1: "members s1 Frag = members s Frag @ [next_id s]"
    using Cons.prems(2) by (simp add: s1_def)
  have r1: "CreatePlaceholders s Frag (E # Es) = Some s'"
    using step IH(1) by simp
  have r2: "next_id s' = next_id s + length (E # Es)"
    using IH(2) n1 by simp
  have r3: "members s' Frag = members s Frag @ [next_id s ..< next_id s + length (E # Es)]"
    using IH(3) m1 n1 by (simp add: upt_conv_Cons del: upt_Suc)
  have r4: "\<forall>i < next_id s. decls s' i = decls s i"
    using IH(4) n1 old by auto
  have r5: "CurContext s' = CurContext s"
    using IH(5) by (simp add: s1_def)
  have r6: "\<forall>I < length (E # Es). decls s' (next_id s + I)
            = placeholder_for Frag (decls s (the (GetVariableFromCapture s ((E # Es) ! I))))"
  proof (intro allI impI)
    fix I assume I: "I < length (E # Es)"
    show "decls s' (next_id s + I)
            = placeholder_for Frag (decls s (the (GetVariableFromCapture s ((E # Es) ! I))))"
    proof (cases I)
      case 0
      have "decls s' (next_id s) = decls s1 (next_id s)" using IH(4) n1 by simp
      then show ?thesis using 0 V by (simp add: s1_def)
    next
      case (Suc J)
      then have J: "J < length Es" using I by simp
      then have mem: "Es ! J \<in> set Es" by simp
      from Cons.prems mem obtain V' where V': "GetVariableFromCapture s (Es ! J) = Some V'"
        "V' < next_id s" by auto
      have "decls s' (next_id s1 + J)
              = placeholder_for Frag (decls s1 (the (GetVariableFromCapture s1 (Es ! J))))"
        using IH(6) J by simp
      then show ?thesis using Suc n1 same[OF mem] V' old by simp
    qed
  qed
  show ?case by (intro exI[of _ s'] conjI r1 r2 r3 r4 r5 r6)
qed

text \<open>
  Claim C4. Starting a fragment with a list of N capture references to existing variables
  creates the fragment with exactly N members, and the Ith member is the placeholder built
  from the variable of the Ith capture: a static, constexpr, implicit variable of
  dependent type in the fragment, with that variable's identifier and location. Pushing
  the fragment as the current context, when there is a scope, is the last step.
\<close>

theorem placeholders_match_captures:
  assumes "\<forall>E \<in> set Captures. \<exists>V. GetVariableFromCapture s E = Some V \<and> V < next_id s"
  shows "\<exists>Fragment s2.
        ActOnStartCXXFragment h s S Loc Captures
          = Some (Fragment, if S \<noteq> [] then PushDeclContext h s2 S Fragment else s2)
      \<and> kind (decls s2 Fragment) = CXXFragmentDecl
      \<and> length (members s2 Fragment) = length Captures
      \<and> (\<forall>I < length Captures. \<exists>V. GetVariableFromCapture s (Captures ! I) = Some V
            \<and> decls s2 (members s2 Fragment ! I) = placeholder_for Fragment (decls s V))"
proof -
  define n where "n = next_id s"
  define s1 where "s1 = s\<lparr> decls := (decls s)(n := new_decl CXXFragmentDecl (CurContext s) Loc None VoidTy SC_None),
         members := (members s)(n := []), next_id := Suc n \<rparr>"
  have old: "\<And>i. i < n \<Longrightarrow> decls s1 i = decls s i" by (simp add: s1_def)
  have var: "\<And>E. E \<in> set Captures \<Longrightarrow>
      \<exists>V. GetVariableFromCapture s E = Some V \<and> GetVariableFromCapture s1 E = Some V \<and> V < n"
  proof -
    fix E assume "E \<in> set Captures"
    with assms obtain V where V: "GetVariableFromCapture s E = Some V" "V < n"
      by (auto simp: n_def)
    have "GetVariableFromCapture s1 E = Some V"
      by (rule GetVariableFromCapture_kind[OF V(1)]) (simp add: old V(2))
    with V show "\<exists>V. GetVariableFromCapture s E = Some V \<and> GetVariableFromCapture s1 E = Some V \<and> V < n"
      by blast
  qed
  have pre: "\<forall>E \<in> set Captures. \<exists>V. GetVariableFromCapture s1 E = Some V \<and> V < next_id s1"
    using var by (fastforce simp: s1_def)
  have frag: "n < next_id s1" by (simp add: s1_def)
  from CreatePlaceholders_spec[OF pre frag] obtain s2 where s2:
    "CreatePlaceholders s1 n Captures = Some s2"
    "members s2 n = members s1 n @ [next_id s1 ..< next_id s1 + length Captures]"
    "\<forall>i < next_id s1. decls s2 i = decls s1 i"
    "\<forall>I < length Captures. decls s2 (next_id s1 + I)
        = placeholder_for n (decls s1 (the (GetVariableFromCapture s1 (Captures ! I))))"
    by blast
  have run: "ActOnStartCXXFragment h s S Loc Captures
          = Some (n, if S \<noteq> [] then PushDeclContext h s2 S n else s2)"
    using s2(1)
    by (simp add: ActOnStartCXXFragment_def CXXFragmentDecl_Create_def allocate_def
        s1_def[symmetric] n_def[symmetric])
  have mem: "members s2 n = [Suc n ..< Suc n + length Captures]"
    using s2(2) by (simp add: s1_def)
  have k: "kind (decls s2 n) = CXXFragmentDecl"
    using s2(3) by (simp add: s1_def new_decl_def)
  have each: "\<forall>I < length Captures. \<exists>V. GetVariableFromCapture s (Captures ! I) = Some V
            \<and> decls s2 (members s2 n ! I) = placeholder_for n (decls s V)"
  proof (intro allI impI)
    fix I assume I: "I < length Captures"
    then have "Captures ! I \<in> set Captures" by simp
    from var[OF this] obtain V where V: "GetVariableFromCapture s (Captures ! I) = Some V"
      "GetVariableFromCapture s1 (Captures ! I) = Some V" "V < n" by blast
    have "decls s2 (Suc n + I) = placeholder_for n (decls s1 V)"
      using s2(4) I V(2) by (simp add: s1_def)
    moreover have "members s2 n ! I = Suc n + I" using I by (simp add: mem del: upt_Suc)
    ultimately show "\<exists>V. GetVariableFromCapture s (Captures ! I) = Some V
            \<and> decls s2 (members s2 n ! I) = placeholder_for n (decls s V)"
      using V old by simp
  qed
  have len: "length (members s2 n) = length Captures"
    by (simp add: mem del: upt_Suc)
  show ?thesis by (intro exI[of _ n] exI[of _ s2] conjI run k len each)
qed

lemma sample_captures_eq:
  "sample_captures =
     [ImplicitCastExpr (OtherTy 0) CK_LValueToRValue (DeclRefExpr 18 (OtherTy 0)),
      ImplicitCastExpr (OtherTy 0) CK_LValueToRValue (DeclRefExpr 20 (OtherTy 0))]"
  by (simp add: sample_captures_def ReferenceCaptures_def sample_simps)

theorem placeholders_match_captures_witness:
  "map (GetVariableFromCapture sample_sema) sample_captures = [Some 18, Some 20]
   \<and> next_id sample_sema = 30
   \<and> (\<exists>Fragment s'.
         ActOnStartCXXFragment (sample_host []) sample_sema sample_scopes 0 sample_captures
           = Some (Fragment, s')
       \<and> length (members s' Fragment) = 2
       \<and> ident_info (decls s' (members s' Fragment ! 0)) = Some ''n''
       \<and> ident_info (decls s' (members s' Fragment ! 1)) = Some ''p'')"
proof -
  have v: "GetVariableFromCapture sample_sema (sample_captures ! 0) = Some 18"
          "GetVariableFromCapture sample_sema (sample_captures ! 1) = Some 20"
    by (simp_all add: sample_captures_eq sample_simps isa_VarDecl_def)
  have h: "\<forall>E \<in> set sample_captures.
       \<exists>V. GetVariableFromCapture sample_sema E = Some V \<and> V < next_id sample_sema"
    by (simp add: sample_captures_eq sample_simps isa_VarDecl_def)
  have ne: "sample_scopes \<noteq> []" by (simp add: sample_scopes_def)
  from placeholders_match_captures[OF h, of "sample_host []" sample_scopes 0]
  obtain Fragment s2 where r:
    "ActOnStartCXXFragment (sample_host []) sample_sema sample_scopes 0 sample_captures
       = Some (Fragment, PushDeclContext (sample_host []) s2 sample_scopes Fragment)"
    "length (members s2 Fragment) = length sample_captures"
    "\<forall>I < length sample_captures. \<exists>V. GetVariableFromCapture sample_sema (sample_captures ! I) = Some V
        \<and> decls s2 (members s2 Fragment ! I) = placeholder_for Fragment (decls sample_sema V)"
    using ne by auto
  define s' where "s' = PushDeclContext (sample_host []) s2 sample_scopes Fragment"
  have same: "decls s' = decls s2" "members s' = members s2"
    by (simp_all add: s'_def sample_host_def)
  have len: "length sample_captures = 2" by (simp add: sample_captures_eq)
  have "decls s' (members s' Fragment ! 0) = placeholder_for Fragment (decls sample_sema 18)"
    using r(3)[rule_format, of 0] len v(1) by (simp add: same)
  moreover
  have "decls s' (members s' Fragment ! 1) = placeholder_for Fragment (decls sample_sema 20)"
    using r(3)[rule_format, of 1] len v(2) by (simp add: same)
  ultimately have
    "ident_info (decls s' (members s' Fragment ! 0)) = Some ''n''"
    "ident_info (decls s' (members s' Fragment ! 1)) = Some ''p''"
    by (simp_all add: placeholder_for_def sample_simps)
  moreover have "map (GetVariableFromCapture sample_sema) sample_captures = [Some 18, Some 20]"
    by (simp add: sample_captures_eq sample_simps isa_VarDecl_def)
  moreover have "next_id sample_sema = 30" by (simp add: sample_sema_def)
  ultimately show ?thesis using r(1,2) len by (auto simp: s'_def[symmetric] same)
qed

subsection \<open>Finishing a fragment\<close>

text \<open>
  Claim C10. Every call that finishes a fragment with a non-null scope pops the
  declaration context, as its last step. With a null fragment it returns null and hands
  the state, untouched, to \<open>PopDeclContext\<close>: no content is set. With a fragment
  declaration it binds the content to it first and returns it. (A non-null declaration
  that is no fragment fails the \<open>cast<>\<close>.)
\<close>

theorem finish_pops_after_parse_failure:
  assumes "S \<noteq> []"
  shows "ActOnFinishCXXFragment h s S Fragment Content =
     (case Fragment of
        None \<Rightarrow> Some (None, PopDeclContext h s)
      | Some F \<Rightarrow>
          if isa_CXXFragmentDecl (kind (decls s F))
          then Some (Some F, PopDeclContext h (update_decl s F (\<lambda>d. d\<lparr> content := Content \<rparr>)))
          else None)"
  using assms
  by (cases Fragment) (simp_all add: ActOnFinishCXXFragment_def assert_def)

theorem finish_pops_after_parse_failure_witness:
  "sample_scopes \<noteq> []
   \<and> ActOnFinishCXXFragment (sample_host []) sample_sema sample_scopes None (Some 9)
        = Some (None, sample_sema\<lparr> CurContext := 0 \<rparr>)
   \<and> map_option (CurContext \<circ> snd)
        (ActOnStartCXXFragment (sample_host []) sample_sema sample_scopes 0 []) = Some 30
   \<and> Option.bind (ActOnStartCXXFragment (sample_host []) sample_sema sample_scopes 0 [])
        (\<lambda>(F, s1). map_option (\<lambda>(FD, s2). (FD, CurContext s2, content (decls s2 F)))
           (ActOnFinishCXXFragment (sample_host []) s1 sample_scopes None (Some 9)))
        = Some (None, 7, None)
   \<and> Option.bind (ActOnStartCXXFragment (sample_host []) sample_sema sample_scopes 0 [])
        (\<lambda>(F, s1). map_option (\<lambda>(FD, s2). (FD, CurContext s2, content (decls s2 F)))
           (ActOnFinishCXXFragment (sample_host []) s1 sample_scopes (Some F) (Some 9)))
        = Some (Some 30, 7, Some 9)
   \<and> ActOnFinishCXXFragment (sample_host []) sample_sema sample_scopes (Some 14) (Some 9) = None"
proof -
  have h: "sample_scopes \<noteq> []" by (simp add: sample_scopes_def)
  have c: "PopDeclContext (sample_host []) sample_sema = sample_sema\<lparr> CurContext := 0 \<rparr>"
    by (simp add: sample_host_def sample_simps)
  define s1 where "s1 = sample_sema\<lparr> decls := sample_decls(30 := new_decl CXXFragmentDecl 7 0 None VoidTy SC_None),
            members := sample_members(30 := []), next_id := 31, CurContext := 30 \<rparr>"
  have start: "ActOnStartCXXFragment (sample_host []) sample_sema sample_scopes 0 [] = Some (30, s1)"
    using h by (simp add: ActOnStartCXXFragment_def CXXFragmentDecl_Create_def allocate_def
        sample_host_def sample_sema_def s1_def)
  have k: "isa_CXXFragmentDecl (kind (decls s1 30))" "CurContext s1 = 30"
    "decl_context (decls s1 30) = 7" "content (decls s1 30) = None"
    by (simp_all add: s1_def new_decl_def kind_tests)
  have nk: "\<not> isa_CXXFragmentDecl (kind (decls sample_sema 14))"
    by (simp add: sample_simps kind_tests)
  have f0: "ActOnFinishCXXFragment (sample_host []) sample_sema sample_scopes None (Some 9)
        = Some (None, sample_sema\<lparr> CurContext := 0 \<rparr>)"
    using finish_pops_after_parse_failure[OF h, of "sample_host []" sample_sema None "Some 9"] c
    by simp
  have f1: "map_option (\<lambda>(FD, s2). (FD, CurContext s2, content (decls s2 30)))
           (ActOnFinishCXXFragment (sample_host []) s1 sample_scopes None (Some 9))
        = Some (None, 7, None)"
    using finish_pops_after_parse_failure[OF h, of "sample_host []" s1 None "Some 9"] k
    by (simp add: sample_host_def)
  have f2: "map_option (\<lambda>(FD, s2). (FD, CurContext s2, content (decls s2 30)))
           (ActOnFinishCXXFragment (sample_host []) s1 sample_scopes (Some 30) (Some 9))
        = Some (Some 30, 7, Some 9)"
    using finish_pops_after_parse_failure[OF h, of "sample_host []" s1 "Some 30" "Some 9"] k
    by (simp add: sample_host_def update_decl_def)
  have f3: "ActOnFinishCXXFragment (sample_host []) sample_sema sample_scopes (Some 14) (Some 9) = None"
    using finish_pops_after_parse_failure[OF h, of "sample_host []" sample_sema "Some 14" "Some 9"] nk
    by simp
  show ?thesis
    using h f0 f1 f2 f3 k by (simp add: start)
qed

subsection \<open>Effect applicator\<close>

lemma ApplyEffects_loop_results:
  "ApplyEffects_loop h POI Effects Ok s =
     (case effect_results h POI Effects s of
        None \<Rightarrow> None
      | Some (rs, s') \<Rightarrow> Some (Ok \<and> list_all (\<lambda>r. r) rs, s'))"
proof (induction Effects arbitrary: Ok s)
  case Nil
  show ?case by simp
next
  case (Cons Effect Effects)
  show ?case
  proof (cases "ApplyEffect h s POI Effect")
    case None
    then show ?thesis by simp
  next
    case (Some a)
    obtain r s1 where a: "a = (r, s1)" by (cases a)
    show ?thesis
      using Some a Cons.IH[of "Ok \<and> r" s1]
      by (cases "effect_results h POI Effects s1") auto
  qed
qed

lemma effect_results_length:
  "effect_results h POI Effects s = Some (rs, s') \<Longrightarrow> length rs = length Effects"
proof (induction Effects arbitrary: rs s s')
  case Nil
  then show ?case by simp
next
  case (Cons Effect Effects)
  from Cons.prems obtain r s1 rs1 where
    "ApplyEffect h s POI Effect = Some (r, s1)"
    "effect_results h POI Effects s1 = Some (rs1, s')" "rs = r # rs1"
    by (auto split: Option.bind_splits)
  with Cons.IH show ?case by auto
qed

text \<open>
  Claim C2. \<open>ApplyEffects\<close> attempts every effect of the sequence in order, each on the
  state left by the one before, whatever the earlier results were, and returns the
  conjunction of the individual results; it aborts exactly when one of the effects does.
\<close>

theorem ApplyEffects_is_conjunction:
  "(case effect_results h POI Effects s of
      None \<Rightarrow> ApplyEffects h s POI Effects = None
    | Some (rs, s') \<Rightarrow>
        length rs = length Effects
        \<and> ApplyEffects h s POI Effects = Some (list_all (\<lambda>r. r) rs, s'))"
proof (cases "effect_results h POI Effects s")
  case None
  then show ?thesis by (simp add: ApplyEffects_def ApplyEffects_loop_results)
next
  case (Some a)
  obtain rs s' where a: "a = (rs, s')" by (cases a)
  show ?thesis
    using Some a effect_results_length[of h POI Effects s rs s']
    by (simp add: ApplyEffects_def ApplyEffects_loop_results)
qed


theorem ApplyEffects_is_conjunction_witness:
  "effect_results (sample_host []) 5 sample_effects sample_sema
     = Some ([True, False, True],
             sample_sema\<lparr> diags := [Diag 5 err_invalid_injection [1, 2]],
                           errs := [PrintedDecl 14, PrintedDecl 14] \<rparr>)
   \<and> ApplyEffects (sample_host []) sample_sema 5 sample_effects
     = Some (False,
             sample_sema\<lparr> diags := [Diag 5 err_invalid_injection [1, 2]],
                           errs := [PrintedDecl 14, PrintedDecl 14] \<rparr>)"
proof -
  have e1: "\<And>s. ApplyEffect (sample_host []) s 5 (DiagnosticEffect (APV_Int 14))
      = Some (True, s\<lparr> errs := errs s @ [PrintedDecl 14] \<rparr>)"
    by (simp add: ApplyEffect_def ApplyDiagnostic_def getInt_def sample_host_def PrintDecl_def)
  define s1 where "s1 = sample_sema\<lparr> errs := [PrintedDecl 14] \<rparr>"
  have e2: "ApplyEffect (sample_host []) s1 5
       (InjectionEffect \<lparr> ReflectionType = RecordTy 13, ReflectionValue = APV_Struct [] [],
                        InjecteeType = Some (RecordTy 15) \<rparr>)
      = Some (False, s1\<lparr> diags := [Diag 5 err_invalid_injection [1, 2]] \<rparr>)"
    by (simp add: ApplyEffect_def ApplyInjection_def GetDeclFromReflection_def sample_host_def
        getAsCXXRecordDecl_def InjectFragment_def assert_def castToDeclContext_def
        CheckInjectionContexts_def InvalidInjection_def DescribeInjectionTarget_def emit_def
        s1_def sample_simps kind_tests)
  have r: "effect_results (sample_host []) 5 sample_effects sample_sema
     = Some ([True, False, True],
             sample_sema\<lparr> diags := [Diag 5 err_invalid_injection [1, 2]],
                           errs := [PrintedDecl 14, PrintedDecl 14] \<rparr>)"
    using e2 by (simp add: sample_effects_def e1 s1_def sample_sema_def)
  show ?thesis
    using ApplyEffects_is_conjunction[where h = "sample_host []" and POI = 5
        and Effects = sample_effects and s = sample_sema] r
    by simp
qed

subsection \<open>Fragment expansion\<close>

lemmas inject_defs =
  InjectFragment_def assert_def castToDeclContext_def CheckInjectionContexts_def
  InvalidInjection_def DescribeInjectionTarget_def emit_def getStructNumFields_def
  getStructFields_def getAsCXXRecordDecl_def InjectionContext_new_def AddDeclSubstitution_def
  AddPlaceholderSubstitutions_def fields_of_def sample_host_def clone_decl_def allocate_def
  addDecl_def setInvalidDecl_def update_decl_def

text \<open>
  Claim C3. When the content of the fragment is a record and the injectee is not, or the
  content is a file context and the injectee is not, and the injectee is one of the
  targets an injection can have (function or method, record, namespace, translation
  unit), \<open>InjectFragment\<close> returns false, leaves the output vector as it was, and the
  only change of the state is the context-mismatch diagnostic: nothing is created and
  the injectee is not touched.
\<close>

theorem fragment_context_mismatch:
  assumes content: "isa_CXXRecordDecl (kind (decls s Injection))
                    \<or> isa_NamespaceDecl (kind (decls s Injection))"
    and target: "DescribeInjectionTarget (kind (decls s Injectee)) = Some target"
    and mismatch: "(isRecord (kind (decls s Injection)) \<and> \<not> isRecord (kind (decls s Injectee)))
                   \<or> (isFileContext (kind (decls s Injection))
                       \<and> \<not> isFileContext (kind (decls s Injectee)))"
  shows "InjectFragment h s POI ReflectionTy ReflectionVal Injectee Injection Decls =
           Some (False, Decls,
                 s\<lparr> diags := diags s @
                      [Diag POI err_invalid_injection
                         [if isRecord (kind (decls s Injection)) then 1 else 0, target]] \<rparr>)"
proof -
  have c1: "isDeclContext (kind (decls s Injection))"
    using content by (auto simp: kind_tests)
  have c2: "isDeclContext (kind (decls s Injectee))"
    using target by (auto simp: DescribeInjectionTarget_def kind_tests split: if_splits)
  have chk: "CheckInjectionContexts s POI Injection Injectee =
      Some (False, emit s (Diag POI err_invalid_injection
                         [if isRecord (kind (decls s Injection)) then 1 else 0, target]))"
    using mismatch target content
    by (auto simp: CheckInjectionContexts_def InvalidInjection_def kind_tests)
  show ?thesis
    using content c1 c2
    by (simp add: InjectFragment_def assert_def castToDeclContext_def chk emit_def)
qed

theorem fragment_context_mismatch_witness:
  "InjectFragment (sample_host []) sample_sema 5 (RecordTy 13) (APV_Struct [] []) 15 9 [] =
     Some (False, [], sample_sema\<lparr> diags := [Diag 5 err_invalid_injection [1, 2]] \<rparr>)
   \<and> kind (decls sample_sema 9) = CXXRecordDecl
   \<and> kind (decls sample_sema 15) = NamespaceDecl"
proof -
  have a: "isa_CXXRecordDecl (kind (decls sample_sema 9))
           \<or> isa_NamespaceDecl (kind (decls sample_sema 9))"
    by (simp add: sample_simps kind_tests)
  have b: "DescribeInjectionTarget (kind (decls sample_sema 15)) = Some 2"
    by (simp add: sample_simps kind_tests DescribeInjectionTarget_def)
  have c: "(isRecord (kind (decls sample_sema 9)) \<and> \<not> isRecord (kind (decls sample_sema 15)))
           \<or> (isFileContext (kind (decls sample_sema 9))
               \<and> \<not> isFileContext (kind (decls sample_sema 15)))"
    by (simp add: sample_simps kind_tests)
  show ?thesis
    using fragment_context_mismatch[OF a b c, of "sample_host []" 5 "RecordTy 13"
        "APV_Struct [] []" "[]"]
    by (simp add: sample_simps kind_tests)
qed

text \<open>
  Claim C1. A fragment whose member \<open>x\<close> (11) fails to substitute, injected into the
  class \<open>S\<close> (14): the injectee is marked invalid, the failing member is left out, the
  next member \<open>m\<close> is still injected (as 30), and the function returns true, not failure.
\<close>

theorem failed_member_still_reports_success:
  "map_option (\<lambda>(r, Decls, s'). (r, Decls, invalid_decl (decls s' 14), ident_info (decls s' 30)))
     (InjectFragment (sample_host [11]) sample_sema 5 (RecordTy 13) (APV_Struct [] []) 14 9 [])
   = Some (True, [30], True, Some ''m'')"
  by (simp add: inject_defs sample_simps kind_tests)


text \<open>Once the context check has passed, no path of \<open>InjectFragment\<close> returns false.\<close>

lemma InjectFragment_result_after_check:
  assumes "InjectFragment h s POI ReflectionTy ReflectionVal Injectee Injection Decls
             = Some (r, Decls', s')"
    and "CheckInjectionContexts s POI Injection Injectee = Some (True, s1)"
  shows "r"
proof -
  from assms(1) have c: "castToDeclContext s Injectee = Some Injectee"
    "castToDeclContext s Injection = Some Injection"
    by (auto simp: InjectFragment_def castToDeclContext_def split: Option.bind_splits if_splits)
  show ?thesis
    using assms
    by (auto simp add: InjectFragment_def c Let_def split: Option.bind_splits prod.splits)
qed

lemma InjectFragment_loop_append:
  "InjectFragment_loop h I IDC (Ds1 @ Ds2) Decls s =
     (case InjectFragment_loop h I IDC Ds1 Decls s of
        (Decls1, s1) \<Rightarrow> InjectFragment_loop h I IDC Ds2 Decls1 s1)"
  by (induction Ds1 arbitrary: Decls s) (auto split: prod.splits option.splits)

text \<open>
  Claim C7. Copying an injected class name into a declaration context returns true with
  the output vector and the state unchanged; and a member of a fragment's content that is
  an injected class name when the loop reaches it is passed over: the expansion is that
  of the content without it.
\<close>

theorem injected_class_names_are_skipped:
  "(isDeclContext (kind (decls s Injectee))
      \<and> isa_CXXRecordDecl (kind (decls s Injection)) \<and> injected_class_name (decls s Injection)
    \<longrightarrow> CopyDeclaration h s POI ReflectionTy ReflectionVal Injectee Injection Decls
          = Some (True, Decls, s))
   \<and> (isa_CXXRecordDecl (kind (decls (snd (InjectFragment_loop h I IDC Ds1 Decls s)) D))
      \<and> injected_class_name (decls (snd (InjectFragment_loop h I IDC Ds1 Decls s)) D)
    \<longrightarrow> InjectFragment_loop h I IDC (Ds1 @ D # Ds2) Decls s
          = InjectFragment_loop h I IDC (Ds1 @ Ds2) Decls s)"
proof (intro conjI impI)
  assume "isDeclContext (kind (decls s Injectee))
      \<and> isa_CXXRecordDecl (kind (decls s Injection)) \<and> injected_class_name (decls s Injection)"
  then show "CopyDeclaration h s POI ReflectionTy ReflectionVal Injectee Injection Decls
          = Some (True, Decls, s)"
    by (simp add: CopyDeclaration_def castToDeclContext_def)
next
  assume a: "isa_CXXRecordDecl (kind (decls (snd (InjectFragment_loop h I IDC Ds1 Decls s)) D))
      \<and> injected_class_name (decls (snd (InjectFragment_loop h I IDC Ds1 Decls s)) D)"
  obtain Decls1 s1 where r: "InjectFragment_loop h I IDC Ds1 Decls s = (Decls1, s1)"
    by (cases "InjectFragment_loop h I IDC Ds1 Decls s")
  show "InjectFragment_loop h I IDC (Ds1 @ D # Ds2) Decls s
          = InjectFragment_loop h I IDC (Ds1 @ Ds2) Decls s"
    using a r by (simp add: InjectFragment_loop_append)
qed


theorem injected_class_names_are_skipped_witness:
  "CopyDeclaration (sample_host []) sample_sema 5 (RecordTy 16) (mods_value 0 0 0 0 0) 14 23 []
     = Some (True, [], sample_sema)
   \<and> InjectFragment_loop (sample_host []) 14 14 [10, 11, 12] [] sample_sema
     = InjectFragment_loop (sample_host []) 14 14 [11, 12] [] sample_sema
   \<and> fst (InjectFragment_loop (sample_host []) 14 14 [10, 11, 12] [] sample_sema) = [30, 31]"
proof -
  have a: "isDeclContext (kind (decls sample_sema 14))
      \<and> isa_CXXRecordDecl (kind (decls sample_sema 23)) \<and> injected_class_name (decls sample_sema 23)"
    by (simp add: sample_simps kind_tests)
  have b: "isa_CXXRecordDecl (kind (decls (snd (InjectFragment_loop (sample_host []) 14 14 [] [] sample_sema)) 10))
      \<and> injected_class_name (decls (snd (InjectFragment_loop (sample_host []) 14 14 [] [] sample_sema)) 10)"
    by (simp add: sample_simps kind_tests)
  have c: "fst (InjectFragment_loop (sample_host []) 14 14 [11, 12] [] sample_sema) = [30, 31]"
    by (simp add: inject_defs sample_simps kind_tests)
  show ?thesis
    using injected_class_names_are_skipped[where s = sample_sema and Injectee = 14
        and Injection = 23 and h = "sample_host []" and POI = 5 and ReflectionTy = "RecordTy 16"
        and ReflectionVal = "mods_value 0 0 0 0 0" and Decls = "[]" and I = 14 and IDC = 14
        and ?Ds1.0 = "[]" and D = 10 and ?Ds2.0 = "[11, 12]"] a b c
    by simp
qed

subsection \<open>Reflection recognizers\<close>

text \<open>
  An expression whose type is not a record type is no match for either recognizer, and
  nothing is emitted; a specialization whose owner (one inline namespace stripped) is not
  the namespace the host returns is no match either, in the state the lookup of that
  namespace left.
\<close>

lemma recognizers_reject_non_record:
  assumes "\<not> isRecordType (expr_type E)"
  shows "ReferencesFunction h s E RefTy = Some (False, RefTy, s)
       \<and> ReferencesParameter h s E RefTy = Some (False, RefTy, s)"
  using assms
  by (auto simp: ReferencesFunction_def ReferencesParameter_def ReferencedReflectionClass_def
      getCanonicalType_def isRecordType_def split: qualtype.splits)

lemma recognizers_reject_outside_meta:
  assumes "expr_type E = RecordTy Class"
    and "RequireCppxMetaNamespace h s = (Meta, s1)"
    and "Meta \<noteq> Some (if isInlineNamespace (decls s (decl_context (decls s Class)))
                        then decl_context (decls s (decl_context (decls s Class)))
                        else decl_context (decls s Class))"
  shows "ReferencesFunction h s E RefTy = Some (False, RefTy, if isa_ClassTemplateSpecializationDecl (kind (decls s Class)) then s1 else s)
       \<and> ReferencesParameter h s E RefTy = Some (False, RefTy, if isa_ClassTemplateSpecializationDecl (kind (decls s Class)) then s1 else s)"
  using assms
  by (auto simp: ReferencesFunction_def ReferencesParameter_def ReferencedReflectionClass_def
      getCanonicalType_def Equals_def Let_def)

text \<open>
  Claim C8. An expression of type \<open>meta::reflected_tuple<U>\<close>, \<open>U\<close> an unnamed class: the
  recognizer for a whole parameter list does not answer "no match" but dereferences the
  null identifier of \<open>U\<close>.
\<close>

theorem unnamed_tuple_argument_aborts:
  "ReferencesFunction (sample_host []) sample_sema (OtherExpr 0 (RecordTy 4)) None = None"
  by (simp add: ReferencesFunction_def ReferencedReflectionClass_def getCanonicalType_def
      isInlineNamespace_def Equals_def getName_def sample_host_def sample_simps kind_tests)


subsection \<open>Single-declaration copy\<close>

lemma CopyDeclaration_after_checks:
  assumes "isRecord (kind (decls s Injectee))"
    and "isRecord (kind (decls s (decl_context (decls s Injection))))"
    and "\<not> isa_VarDecl (kind (decls s Injection))"
    and "\<not> isa_CXXRecordDecl (kind (decls s Injection))"
  shows "CopyDeclaration h s POI ReflectionTy ReflectionVal Injectee Injection Decls =
     (case CopyDeclaration_traits h (copy_scope s Injectee Injection) POI ReflectionTy
             ReflectionVal Injectee Injectee Injection Decls of
        None \<Rightarrow> None
      | Some (r, Decls', s6) \<Rightarrow> Some (r, Decls', leave_scope s s6))"
  using assms
  by (auto simp: CopyDeclaration_def castToDeclContext_def CheckInjectionContexts_def
      CheckInjectionKind_def InjectionContext_new_def AddDeclSubstitution_def assert_def
      copy_scope_def leave_scope_def kind_tests Let_def
      split: option.splits prod.splits)


lemma make_virtual_conflict:
  assumes "Virtual" "Pure" "isa_CXXMethodDecl (kind (decls s R))"
    and "defaulted (decls s R) \<or> deleted (decls s R) \<or> defined (decls s R)"
  shows "make_virtual h s POI Virtual Pure R =
     (False, emit (update_decl s R (\<lambda>d. d\<lparr> virtual_as_written := True \<rparr>))
        (Diag POI err_cannot_make_pure_virtual
           [if defaulted (decls s R) then 1 else if deleted (decls s R) then 2 else 0]))"
  using assms by (auto simp: make_virtual_def update_decl_def Let_def)

lemma update_access_frame:
  assumes "update_access s POI Access InjecteeDC R = Some (True, s2)"
  shows "diags s2 = diags s \<and> members s2 = members s
       \<and> kind (decls s2 R) = kind (decls s R) \<and> defaulted (decls s2 R) = defaulted (decls s R)
       \<and> deleted (decls s2 R) = deleted (decls s R) \<and> defined (decls s2 R) = defined (decls s R)"
  using assms
  by (auto simp: update_access_def setAccess_def update_decl_def emit_def split: if_splits)

lemma RewriteAsStaticMemberVariable_init:
  assumes name: "SubstDeclarationNameInfo h s (ident_info (decls s D)) = Some N"
    and type: "SubstType h s (decl_type (decls s D)) = Some T"
    and old: "D < next_id s"
    and subst_init: "\<forall>E st. in_class_initializer (decls s D) = Some E
                       \<and> CurrentInjectionContext st = CurrentInjectionContext s
                      \<longrightarrow> SubstInitializer h st E = ExprValid (Some (Init E))"
    and add_init: "\<forall>st R E. AddInitializerToDecl h st R E
                      = update_decl st R (\<lambda>d. d\<lparr> init := Some E \<rparr>)"
  shows "RewriteAsStaticMemberVariable h s D Owner =
     (Some (next_id s),
      s\<lparr> decls := (decls s)(next_id s :=
             (new_decl VarDecl Owner (location (decls s D)) (Some N) T SC_Static)
               \<lparr> access := access (decls s D),
                 init := map_option Init (in_class_initializer (decls s D)) \<rparr>),
         members := ((members s)(next_id s := []))
                      (Owner := ((members s)(next_id s := [])) Owner @ [next_id s]),
         next_id := Suc (next_id s) \<rparr>)"
proof -
  have ne: "D \<noteq> next_id s" using old by simp
  show ?thesis
  proof (cases "in_class_initializer (decls s D)")
    case None
    then show ?thesis
      using name type ne
      by (simp add: RewriteAsStaticMemberVariable_def allocate_def update_decl_def addDecl_def
          Let_def new_decl_def)
  next
    case (Some E)
    then show ?thesis
      using name type ne subst_init[rule_format, of E]
      by (simp add: RewriteAsStaticMemberVariable_def allocate_def update_decl_def addDecl_def
          Let_def add_init[rule_format])
  qed
qed

lemma sample_mods:
  "decls st = sample_decls \<Longrightarrow> members st = sample_members \<Longrightarrow>
   GetModifications (sample_host []) st (mods_value a b c d e) (RecordTy 16) ''mods''
     = Some (APV_Struct [] [APV_Int 0, APV_Int a, APV_Int b, APV_Int c, APV_Int d, APV_Int e])"
  by (simp add: mods_value_def getAsCXXRecordDecl_def sample_host_def assert_def
      getStructField_def sample_simps kind_tests)

lemma sample_traits:
  "trait (APV_Struct [] [APV_Int l, APV_Int a, APV_Int b, APV_Int c, APV_Int d, APV_Int e]) 1 = Some a"
  "trait (APV_Struct [] [APV_Int l, APV_Int a, APV_Int b, APV_Int c, APV_Int d, APV_Int e]) 2 = Some b"
  "trait (APV_Struct [] [APV_Int l, APV_Int a, APV_Int b, APV_Int c, APV_Int d, APV_Int e]) 3 = Some c"
  "trait (APV_Struct [] [APV_Int l, APV_Int a, APV_Int b, APV_Int c, APV_Int d, APV_Int e]) 4 = Some d"
  "trait (APV_Struct [] [APV_Int l, APV_Int a, APV_Int b, APV_Int c, APV_Int d, APV_Int e]) 5 = Some e"
  by (simp_all add: trait_def getStructField_def getInt_def)

lemmas copy_defs =
  CopyDeclaration_def CopyDeclaration_traits_def castToDeclContext_def CheckInjectionContexts_def
  CheckInjectionKind_def InjectionContext_new_def AddDeclSubstitution_def assert_def
  update_access_def setAccess_def make_constexpr_def make_virtual_def
  instantiate_missing_definition_def sample_host_def clone_decl_def allocate_def addDecl_def
  update_decl_def emit_def mods_value_def getAsCXXRecordDecl_def getStructField_def trait_def
  getInt_def setInvalidDecl_def

text \<open>
  Claim C5. Copying a field into a class with the trait storage = static (and no other
  trait), where the name and the type of the field substitute to \<open>N\<close> and \<open>T\<close>, its
  in-class initializer, if any, substitutes to \<open>Init\<close> of it and the host attaches
  initializers as given: the copy creates one new declaration, appends it to the members of
  the injectee and to the output vector, and that declaration is a variable (not a field)
  with static storage, named \<open>N\<close>, of type \<open>T\<close>, initialized with the substituted
  initializer; the source field is unchanged.
\<close>

theorem field_becomes_static_member:
  assumes injectee: "isRecord (kind (decls s Injectee))"
    and owner: "isRecord (kind (decls s (decl_context (decls s Injection))))"
    and src: "isa_FieldDecl (kind (decls s Injection))"
    and alloc: "Injection < next_id s" "Injectee < next_id s"
    and mods: "GetModifications h (copy_scope s Injectee Injection) ReflectionVal ReflectionTy
                 ''mods'' = Some Traits"
    and traits: "trait Traits 1 = Some 0" "trait Traits 2 = Some 1" "trait Traits 3 = Some 0"
                "trait Traits 4 = Some 0" "trait Traits 5 = Some Pure"
    and name: "SubstDeclarationNameInfo h (copy_scope s Injectee Injection)
                 (ident_info (decls s Injection)) = Some N"
    and type: "SubstType h (copy_scope s Injectee Injection)
                 (decl_type (decls s Injection)) = Some T"
    and subst_init: "\<forall>E st. in_class_initializer (decls s Injection) = Some E
                       \<and> CurrentInjectionContext st
                            = CurrentInjectionContext (copy_scope s Injectee Injection)
                      \<longrightarrow> SubstInitializer h st E = ExprValid (Some (Init E))"
    and add_init: "\<forall>st R E. AddInitializerToDecl h st R E
                      = update_decl st R (\<lambda>d. d\<lparr> init := Some E \<rparr>)"
    and upd: "\<forall>st DC R. decls (updateDecl h st DC R) = decls st
                      \<and> members (updateDecl h st DC R) = members st"
  shows "\<exists>s'. CopyDeclaration h s POI ReflectionTy ReflectionVal Injectee Injection Decls
               = Some (\<not> invalid_decl (decls s Injectee), Decls @ [next_id s], s')
      \<and> decls s' (next_id s)
          = static_member Injectee (decls s Injection) N T
              (map_option Init (in_class_initializer (decls s Injection)))
      \<and> members s' Injectee = members s Injectee @ [next_id s]
      \<and> decls s' Injection = decls s Injection"
proof -
  have novar: "\<not> isa_VarDecl (kind (decls s Injection))"
       and norec: "\<not> isa_CXXRecordDecl (kind (decls s Injection))"
       and nofun: "\<not> isa_FunctionDecl (kind (decls s Injection))"
    using src by (auto simp: kind_tests)
  define n where "n = next_id s"
  define cs where "cs = copy_scope s Injectee Injection"
  have dcs: "decls cs = decls s" "members cs = members s" "next_id cs = n"
    by (simp_all add: cs_def copy_scope_def n_def)
  define s1 where "s1 = cs\<lparr> decls := (decls cs)(n :=
             (new_decl VarDecl Injectee (location (decls cs Injection)) (Some N) T SC_Static)
               \<lparr> access := access (decls cs Injection),
                 init := map_option Init (in_class_initializer (decls cs Injection)) \<rparr>),
         members := ((members cs)(n := []))
                      (Injectee := ((members cs)(n := [])) Injectee @ [n]),
         next_id := Suc n \<rparr>"
  have rw: "RewriteAsStaticMemberVariable h cs Injection Injectee = (Some n, s1)"
    using RewriteAsStaticMemberVariable_init[of h cs Injection N T Init Injectee]
      name type alloc(1) subst_init add_init
    by (simp add: cs_def[symmetric] dcs s1_def n_def[symmetric])
  have ne: "Injectee \<noteq> n" "Injection \<noteq> n" using alloc by (simp_all add: n_def)
  define s2 where "s2 = (if access (decls s Injection) = AS_none
                         then setAccess s1 n AS_public else s1)"
  have acc: "update_access s1 POI 0 Injectee n = Some (True, s2)"
    using injectee ne
    by (simp add: update_access_def s1_def dcs s2_def isRecord_def new_decl_def)
  have inst: "instantiate_missing_definition h s2 POI Injection n = Some s2"
    using nofun norec ne
    by (simp add: instantiate_missing_definition_def s2_def s1_def dcs setAccess_def
        update_decl_def)
  define s6 where "s6 = updateDecl h s2 (decl_context (decls s2 n)) n"
  have d6: "decls s6 = decls s2" "members s6 = members s2"
    using upd by (simp_all add: s6_def)
  have valid: "\<not> invalid_decl (decls s1 n)" by (simp add: s1_def new_decl_def)
  have body: "CopyDeclaration_traits h cs POI ReflectionTy ReflectionVal Injectee Injectee
                Injection Decls = Some (\<not> invalid_decl (decls s6 Injectee), Decls @ [n], s6)"
    using mods traits src rw valid acc inst
    by (simp add: CopyDeclaration_traits_def cs_def[symmetric] dcs assert_def
        make_constexpr_def make_virtual_def s6_def Let_def)
  have inv: "invalid_decl (decls s6 Injectee) = invalid_decl (decls s Injectee)"
    using ne by (simp add: d6 s2_def s1_def dcs setAccess_def update_decl_def)
  have run: "CopyDeclaration h s POI ReflectionTy ReflectionVal Injectee Injection Decls
               = Some (\<not> invalid_decl (decls s Injectee), Decls @ [n], leave_scope s s6)"
    using CopyDeclaration_after_checks[OF injectee owner novar norec, of h POI ReflectionTy
        ReflectionVal Decls] body inv
    by (simp add: cs_def)
  have r1: "decls (leave_scope s s6) n
          = static_member Injectee (decls s Injection) N T
              (map_option Init (in_class_initializer (decls s Injection)))"
    by (simp add: leave_scope_def d6 s2_def s1_def dcs setAccess_def update_decl_def
        static_member_def new_decl_def)
  have r2: "members (leave_scope s s6) Injectee = members s Injectee @ [n]"
    using ne by (simp add: leave_scope_def d6 s2_def s1_def dcs setAccess_def update_decl_def)
  have r3: "decls (leave_scope s s6) Injection = decls s Injection"
    using ne by (simp add: leave_scope_def d6 s2_def s1_def dcs setAccess_def update_decl_def)
  show ?thesis
    using run r1 r2 r3 unfolding n_def by blast
qed

theorem field_becomes_static_member_witness:
  "\<exists>s'. CopyDeclaration (sample_host []) sample_sema 5 (RecordTy 16) (mods_value 0 1 0 0 0)
           14 24 [] = Some (True, [30], s')
     \<and> kind (decls s' 30) = VarDecl \<and> storage (decls s' 30) = SC_Static
     \<and> decl_context (decls s' 30) = 14
     \<and> ident_info (decls s' 30) = Some ''y'' \<and> decl_type (decls s' 30) = OtherTy 0
     \<and> init (decls s' 30) = Some (OtherExpr 4 (OtherTy 0))
     \<and> members s' 14 = [30]
     \<and> kind (decls s' 24) = FieldDecl"
proof -
  have cs: "decls (copy_scope sample_sema 14 24) = sample_decls"
    "members (copy_scope sample_sema 14 24) = sample_members"
    by (simp_all add: copy_scope_def sample_sema_def)
  from field_becomes_static_member[where s = sample_sema and Injectee = 14 and Injection = 24
      and h = "sample_host []" and ReflectionVal = "mods_value 0 1 0 0 0"
      and ReflectionTy = "RecordTy 16" and N = "''y''" and T = "OtherTy 0"
      and Init = "\<lambda>E. E" and POI = 5 and Decls = "[]" and Pure = 0,
      OF _ _ _ _ _ sample_mods[OF cs] sample_traits]
  obtain s' where r:
    "CopyDeclaration (sample_host []) sample_sema 5 (RecordTy 16) (mods_value 0 1 0 0 0)
           14 24 [] = Some (\<not> invalid_decl (decls sample_sema 14), [] @ [next_id sample_sema], s')"
    "decls s' (next_id sample_sema)
          = static_member 14 (decls sample_sema 24) ''y'' (OtherTy 0)
              (map_option (\<lambda>E. E) (in_class_initializer (decls sample_sema 24)))"
    "members s' 14 = members sample_sema 14 @ [next_id sample_sema]"
    "decls s' 24 = decls sample_sema 24"
    by (auto simp: sample_simps kind_tests sample_host_def)
  show ?thesis
    using r by (intro exI[of _ s']) (simp add: sample_simps static_member_def)
qed


text \<open>
  Claim C6, as stated, fails: with the trait pure but not virtual, the copy of a defaulted
  method succeeds, emits no diagnostic and returns the clone.
\<close>

theorem pure_without_virtual_counterexample:
  "map_option fst (CopyDeclaration (sample_host []) sample_sema 5 (RecordTy 16)
       (mods_value 0 0 0 0 1) 14 25 []) = Some True
   \<and> map_option (fst \<circ> snd) (CopyDeclaration (sample_host []) sample_sema 5 (RecordTy 16)
       (mods_value 0 0 0 0 1) 14 25 []) = Some [30]
   \<and> map_option (diags \<circ> snd \<circ> snd) (CopyDeclaration (sample_host []) sample_sema 5
       (RecordTy 16) (mods_value 0 0 0 0 1) 14 25 []) = Some []
   \<and> kind (decls sample_sema 25) = CXXMethodDecl \<and> defaulted (decls sample_sema 25)
   \<and> GetModifications (sample_host []) sample_sema (mods_value 0 0 0 0 1) (RecordTy 16) ''mods''
       = Some (APV_Struct [] [APV_Int 0, APV_Int 0, APV_Int 0, APV_Int 0, APV_Int 0, APV_Int 1])"
  by (simp add: copy_defs sample_simps kind_tests)

text \<open>
  Claim C6, amended. When the traits request virtual and pure (and not constexpr), the
  clone is a valid method and the access trait is applied without error, a clone that is
  defaulted, deleted or defined makes the copy return false with the diagnostic "cannot
  make pure virtual" (selector 1, 2, 0 in that order of precedence), the output vector
  unchanged and the member lists as the substitution of the declaration left them.
\<close>

theorem pure_conflict_is_diagnosed:
  assumes injectee: "isRecord (kind (decls s Injectee))"
    and owner: "isRecord (kind (decls s (decl_context (decls s Injection))))"
    and src: "isa_CXXMethodDecl (kind (decls s Injection))"
    and mods: "GetModifications h (copy_scope s Injectee Injection) ReflectionVal ReflectionTy
                 ''mods'' = Some Traits"
    and access: "trait Traits 1 = Some Access"
    and storage: "trait Traits 2 = Some Storage" "Storage \<noteq> 2" "Storage \<noteq> 3"
    and cexpr: "trait Traits 3 = Some 0"
    and virt: "trait Traits 4 = Some Virtual" "Virtual \<noteq> 0"
    and pure: "trait Traits 5 = Some Pure" "Pure \<noteq> 0"
    and clone: "SubstDecl h (copy_scope s Injectee Injection) Injection Injectee = (Some R, s1)"
    and valid: "\<not> invalid_decl (decls s1 R)"
    and acc_ok: "update_access s1 POI Access Injectee R = Some (True, s2)"
    and clone_kind: "isa_CXXMethodDecl (kind (decls s1 R))"
    and conflict: "defaulted (decls s1 R) \<or> deleted (decls s1 R) \<or> defined (decls s1 R)"
  shows "\<exists>s'. CopyDeclaration h s POI ReflectionTy ReflectionVal Injectee Injection Decls
               = Some (False, Decls, s')
      \<and> diags s' = diags s1 @ [Diag POI err_cannot_make_pure_virtual
            [if defaulted (decls s1 R) then 1 else if deleted (decls s1 R) then 2 else 0]]
      \<and> members s' = members s1"
proof -
  have nofield: "\<not> isa_FieldDecl (kind (decls s Injection))"
       and novar: "\<not> isa_VarDecl (kind (decls s Injection))"
       and norec: "\<not> isa_CXXRecordDecl (kind (decls s Injection))"
    using src by (auto simp: kind_tests)
  define cs where "cs = copy_scope s Injectee Injection"
  have dcs: "decls cs = decls s" by (simp add: cs_def copy_scope_def)
  note fr = update_access_frame[OF acc_ok]
  have m2: "isa_CXXMethodDecl (kind (decls s2 R))" using fr clone_kind by simp
  have c2: "defaulted (decls s2 R) \<or> deleted (decls s2 R) \<or> defined (decls s2 R)"
    using fr conflict by simp
  define s4 where "s4 = emit (update_decl s2 R (\<lambda>d. d\<lparr> virtual_as_written := True \<rparr>))
        (Diag POI err_cannot_make_pure_virtual
           [if defaulted (decls s2 R) then 1 else if deleted (decls s2 R) then 2 else 0])"
  have mv: "make_virtual h s2 POI (Virtual \<noteq> 0) (Pure \<noteq> 0) R = (False, s4)"
    using make_virtual_conflict[OF _ _ m2 c2, of "Virtual \<noteq> 0" "Pure \<noteq> 0" h POI] virt pure
    by (simp add: s4_def)
  have body: "CopyDeclaration_traits h cs POI ReflectionTy ReflectionVal Injectee Injectee
                Injection Decls = Some (False, Decls, s4)"
    using mods access storage cexpr virt pure clone valid acc_ok nofield mv
    by (simp add: CopyDeclaration_traits_def cs_def[symmetric] dcs assert_def
        make_constexpr_def)
  have run: "CopyDeclaration h s POI ReflectionTy ReflectionVal Injectee Injection Decls
               = Some (False, Decls, leave_scope s s4)"
    using CopyDeclaration_after_checks[OF injectee owner novar norec, of h POI ReflectionTy
        ReflectionVal Decls] body
    by (simp add: cs_def)
  have d: "diags (leave_scope s s4) = diags s1 @ [Diag POI err_cannot_make_pure_virtual
            [if defaulted (decls s1 R) then 1 else if deleted (decls s1 R) then 2 else 0]]"
    using fr by (simp add: leave_scope_def s4_def emit_def update_decl_def)
  have m: "members (leave_scope s s4) = members s1"
    using fr by (simp add: leave_scope_def s4_def emit_def update_decl_def)
  show ?thesis using run d m by blast
qed


theorem pure_conflict_is_diagnosed_witness:
  "\<exists>s'. CopyDeclaration (sample_host []) sample_sema 5 (RecordTy 16) (mods_value 0 0 0 1 1)
           14 25 [] = Some (False, [], s')
     \<and> diags s' = [Diag 5 err_cannot_make_pure_virtual [1]]
     \<and> members s' 14 = [30]"
proof -
  define cs where "cs = copy_scope sample_sema 14 25"
  have dcs: "decls cs = sample_decls" "members cs = sample_members" "next_id cs = 30"
    "diags cs = []"
    by (simp_all add: cs_def copy_scope_def sample_sema_def)
  define s1 where "s1 = snd (clone_decl [] cs 25 14)"
  have clone: "SubstDecl (sample_host []) cs 25 14 = (Some 30, s1)"
    by (simp add: s1_def sample_host_def clone_decl_def allocate_def addDecl_def dcs)
  have d1: "decls s1 30 = (sample_decls 25)\<lparr> decl_context := 14 \<rparr>"
    "decls s1 14 = sample_decls 14" "diags s1 = []" "members s1 14 = [30]"
    by (simp_all add: s1_def clone_decl_def allocate_def addDecl_def dcs sample_simps)
  have acc: "update_access s1 5 0 14 30 = Some (True, setAccess s1 30 AS_public)"
    by (simp add: update_access_def d1 sample_simps kind_tests)
  from pure_conflict_is_diagnosed[where s = sample_sema and Injectee = 14 and Injection = 25
      and h = "sample_host []" and ReflectionVal = "mods_value 0 0 0 1 1"
      and ReflectionTy = "RecordTy 16" and POI = 5 and Decls = "[]" and R = 30 and ?s1.0 = s1
      and Access = 0 and Storage = 0 and Virtual = 1 and Pure = 1
      and ?s2.0 = "setAccess s1 30 AS_public",
      OF _ _ _ sample_mods[OF dcs(1,2)[unfolded cs_def]] sample_traits(1,2) _ _ sample_traits(3,4)
         _ sample_traits(5) _ clone[unfolded cs_def] _ acc]
  obtain s' where r:
    "CopyDeclaration (sample_host []) sample_sema 5 (RecordTy 16) (mods_value 0 0 0 1 1)
           14 25 [] = Some (False, [], s')"
    "diags s' = diags s1 @ [Diag 5 err_cannot_make_pure_virtual
            [if defaulted (decls s1 30) then 1 else if deleted (decls s1 30) then 2 else 0]]"
    "members s' = members s1"
    by (auto simp: d1 sample_simps kind_tests)
  show ?thesis
    using r by (intro exI[of _ s']) (simp add: d1 sample_simps)
qed


end
